theory Spec2Isabelle
  imports Complex_Main
begin

section \<open>Arrays and errors\<close>

text \<open>
  The module \<^verbatim>\<open>mmq.py\<close> computes on numpy arrays of floats. An array is modelled by
  its shape and its entries in row-major order; a float is modelled by a real number.
  Where numpy or Python leaves the real numbers or raises, the model returns an error
  value: \<open>ShapeError\<close> for operands that cannot be broadcast or reshaped,
  \<open>DivByZero\<close> for a division whose divisor is zero (Python floats raise, numpy
  arrays yield inf or nan with a warning), \<open>LinAlgError\<close> for what a linear-algebra
  routine rejects, \<open>TruthError\<close> for the truth value of an array of several entries,
  \<open>NonFinite\<close> for arithmetic on an infinite entry, \<open>ValueError\<close>,
  \<open>IndexError\<close> and \<open>TypeError\<close> for Python's exceptions of these names on an
  empty stack, a slice of a scalar and an iteration over a scalar, \<open>Unsupported\<close>
  for an operand the model does not follow (a rank above 2 in a matrix operation, a
  Python list in array arithmetic).
\<close>

datatype error =
    ShapeError | DivByZero | NonFinite | LinAlgError | TruthError
  | ValueError | IndexError | TypeError | Unsupported

datatype 'a ndarray = NDArray (shape: "nat list") (data: "'a list")

text \<open>The only non-real float the module writes down is \<^verbatim>\<open>np.inf\<close>.\<close>

datatype xreal = Finite real | PosInf

definition err_bind :: "error + 'a \<Rightarrow> ('a \<Rightarrow> error + 'b) \<Rightarrow> error + 'b" where
  "err_bind m f = (case m of Inl e \<Rightarrow> Inl e | Inr x \<Rightarrow> f x)"

fun sequence_err :: "(error + 'a) list \<Rightarrow> error + 'a list" where
  "sequence_err [] = Inr []"
| "sequence_err (m # ms) =
     err_bind m (\<lambda>x. err_bind (sequence_err ms) (\<lambda>xs. Inr (x # xs)))"

definition fdiv :: "real \<Rightarrow> real \<Rightarrow> error + real" where
  "fdiv a b = (if b = 0 then Inl DivByZero else Inr (a / b))"

definition wf_array :: "'a ndarray \<Rightarrow> bool" where
  "wf_array a = (length (data a) = prod_list (shape a))"

definition nd_size :: "'a ndarray \<Rightarrow> nat" where
  "nd_size a = prod_list (shape a)"

definition nd_map :: "('a \<Rightarrow> 'b) \<Rightarrow> 'a ndarray \<Rightarrow> 'b ndarray" where
  "nd_map f a = NDArray (shape a) (map f (data a))"

definition nd_map_err :: "('a \<Rightarrow> error + 'b) \<Rightarrow> 'a ndarray \<Rightarrow> error + 'b ndarray" where
  "nd_map_err f a =
     err_bind (sequence_err (map f (data a))) (\<lambda>d. Inr (NDArray (shape a) d))"

definition scalar :: "'a \<Rightarrow> 'a ndarray" where
  "scalar v = NDArray [] [v]"

subsection \<open>Broadcasting\<close>

text \<open>
  numpy aligns two shapes at their last axis; two axes are compatible when they are equal
  or one of them is 1, and the missing leading axes of the shorter shape count as 1.
\<close>

fun broadcast_dims :: "nat list \<Rightarrow> nat list \<Rightarrow> nat list option" where
  "broadcast_dims [] ys = Some ys"
| "broadcast_dims xs [] = Some xs"
| "broadcast_dims (x # xs) (y # ys) =
     (if x = y \<or> y = 1 then map_option ((#) x) (broadcast_dims xs ys)
      else if x = 1 then map_option ((#) y) (broadcast_dims xs ys)
      else None)"

definition broadcast_shapes :: "nat list \<Rightarrow> nat list \<Rightarrow> nat list option" where
  "broadcast_shapes s t = map_option rev (broadcast_dims (rev s) (rev t))"

fun chunks :: "nat \<Rightarrow> nat \<Rightarrow> 'a list \<Rightarrow> 'a list list" where
  "chunks n 0 d = []"
| "chunks n (Suc k) d = take n d # chunks n k (drop n d)"

fun bcast :: "nat list \<Rightarrow> nat list \<Rightarrow> 'a list \<Rightarrow> 'a list" where
  "bcast (s # ss) (t # ts) d =
     (if s = t then concat (map (bcast ss ts) (chunks (prod_list ss) s d))
      else concat (replicate t (bcast ss ts d)))"
| "bcast ss ts d = d"

definition broadcast_to :: "nat list \<Rightarrow> 'a ndarray \<Rightarrow> 'a list" where
  "broadcast_to t a =
     bcast (replicate (length t - length (shape a)) 1 @ shape a) t (data a)"

definition nd_binop :: "('a \<Rightarrow> 'b \<Rightarrow> 'c) \<Rightarrow> 'a ndarray \<Rightarrow> 'b ndarray \<Rightarrow> error + 'c ndarray" where
  "nd_binop f a b =
     (case broadcast_shapes (shape a) (shape b) of
        None \<Rightarrow> Inl ShapeError
      | Some s \<Rightarrow> Inr (NDArray s (map2 f (broadcast_to s a) (broadcast_to s b))))"

definition nd_sub :: "real ndarray \<Rightarrow> real ndarray \<Rightarrow> error + real ndarray" where
  "nd_sub = nd_binop (-)"

definition nd_add :: "real ndarray \<Rightarrow> real ndarray \<Rightarrow> error + real ndarray" where
  "nd_add = nd_binop (+)"

definition nd_mul :: "real ndarray \<Rightarrow> real ndarray \<Rightarrow> error + real ndarray" where
  "nd_mul = nd_binop (*)"

definition nd_div :: "real ndarray \<Rightarrow> real ndarray \<Rightarrow> error + real ndarray" where
  "nd_div a b =
     err_bind (nd_binop fdiv a b)
       (\<lambda>q. err_bind (sequence_err (data q)) (\<lambda>d. Inr (NDArray (shape q) d)))"

subsection \<open>Boolean masks\<close>

text \<open>
  \<^verbatim>\<open>a[idx]\<close> with a boolean array \<^verbatim>\<open>idx\<close> of the shape of \<^verbatim>\<open>a\<close> is the
  one-dimensional array of the selected entries, in row-major order;
  \<^verbatim>\<open>a[idx] = v\<close> writes the entries of \<^verbatim>\<open>v\<close>, broadcast to that length, back
  to the selected places.
\<close>

definition mask_get :: "'a ndarray \<Rightarrow> bool ndarray \<Rightarrow> error + 'a ndarray" where
  "mask_get a idx =
     (if shape idx \<noteq> shape a then Inl ShapeError
      else let sel = map fst (filter snd (zip (data a) (data idx)))
           in Inr (NDArray [length sel] sel))"

fun mask_put :: "'a list \<Rightarrow> bool list \<Rightarrow> 'a list \<Rightarrow> 'a list" where
  "mask_put (a # as) (True # bs) (v # vs) = v # mask_put as bs vs"
| "mask_put (a # as) (False # bs) vs = a # mask_put as bs vs"
| "mask_put as bs vs = as"

definition mask_set :: "'a ndarray \<Rightarrow> bool ndarray \<Rightarrow> 'a ndarray \<Rightarrow> error + 'a ndarray" where
  "mask_set a idx v =
     (if shape idx \<noteq> shape a then Inl ShapeError
      else let n = length (filter id (data idx))
           in if broadcast_shapes (shape v) [n] = Some [n]
              then Inr (NDArray (shape a) (mask_put (data a) (data idx) (broadcast_to [n] v)))
              else Inl ShapeError)"

section \<open>Potentials\<close>

text \<open>
  The classes derived from \<^verbatim>\<open>Potential\<close>. An object keeps its class with the
  parameter the constructor stored (\<^verbatim>\<open>vmin\<close>, \<^verbatim>\<open>vmax\<close> or \<^verbatim>\<open>delta\<close>),
  the attribute \<^verbatim>\<open>inf\<close> and the two flags.
\<close>

datatype potential_class =
    VminProj real
  | VmaxProj real
  | Square
  | Hyperbolic real
  | Huber real
  | GemanMcClure real
  | SquareTruncApprox real
  | HerbertLeahy real

record Potential =
  cls :: potential_class
  inf_attr :: xreal
  convex :: bool
  coercive :: bool

subsection \<open>Constructors\<close>

definition VminProj_init :: "real \<Rightarrow> error + Potential" where
  "VminProj_init vmin =
     Inr \<lparr>cls = VminProj vmin, inf_attr = Finite 1, convex = True, coercive = True\<rparr>"

definition VmaxProj_init :: "real \<Rightarrow> error + Potential" where
  "VmaxProj_init vmax =
     Inr \<lparr>cls = VmaxProj vmax, inf_attr = Finite 1, convex = True, coercive = True\<rparr>"

definition Square_init :: "error + Potential" where
  "Square_init =
     Inr \<lparr>cls = Square, inf_attr = Finite 1, convex = True, coercive = True\<rparr>"

text \<open>
  \<^verbatim>\<open>Hyperbolic.__init__\<close> passes \<^verbatim>\<open>1 / (delta ** 2)\<close> to the base constructor and
  then overwrites the attribute with \<^verbatim>\<open>1 / (2 * delta)\<close>.
\<close>

definition Hyperbolic_init :: "real \<Rightarrow> error + Potential" where
  "Hyperbolic_init delta =
     err_bind (fdiv 1 (delta ^ 2)) (\<lambda>inf0.
     let self = \<lparr>cls = Hyperbolic delta, inf_attr = Finite inf0,
                 convex = False, coercive = False\<rparr>
     in err_bind (fdiv 1 (2 * delta)) (\<lambda>inf1.
        Inr (self\<lparr>inf_attr := Finite inf1, convex := True, coercive := True\<rparr>)))"

definition Huber_init :: "real \<Rightarrow> error + Potential" where
  "Huber_init delta =
     Inr \<lparr>cls = Huber delta, inf_attr = Finite 1, convex = True, coercive = True\<rparr>"

definition GemanMcClure_init :: "real \<Rightarrow> error + Potential" where
  "GemanMcClure_init delta =
     err_bind (fdiv 1 (delta ^ 2)) (\<lambda>inf0.
     Inr \<lparr>cls = GemanMcClure delta, inf_attr = Finite inf0,
          convex = False, coercive = False\<rparr>)"

definition SquareTruncApprox_init :: "real \<Rightarrow> error + Potential" where
  "SquareTruncApprox_init delta =
     err_bind (fdiv 1 (delta ^ 2)) (\<lambda>inf0.
     Inr \<lparr>cls = SquareTruncApprox delta, inf_attr = Finite inf0,
          convex = False, coercive = False\<rparr>)"

definition HerbertLeahy_init :: "real \<Rightarrow> error + Potential" where
  "HerbertLeahy_init delta =
     Inr \<lparr>cls = HerbertLeahy delta, inf_attr = PosInf, convex = False, coercive = True\<rparr>"

text \<open>The objects the constructors build.\<close>

definition constructed :: "Potential \<Rightarrow> bool" where
  "constructed p =
     (case cls p of
        VminProj vmin \<Rightarrow> VminProj_init vmin = Inr p
      | VmaxProj vmax \<Rightarrow> VmaxProj_init vmax = Inr p
      | Square \<Rightarrow> Square_init = Inr p
      | Hyperbolic delta \<Rightarrow> Hyperbolic_init delta = Inr p
      | Huber delta \<Rightarrow> Huber_init delta = Inr p
      | GemanMcClure delta \<Rightarrow> GemanMcClure_init delta = Inr p
      | SquareTruncApprox delta \<Rightarrow> SquareTruncApprox_init delta = Inr p
      | HerbertLeahy delta \<Rightarrow> HerbertLeahy_init delta = Inr p)"

subsection \<open>The methods, entry by entry\<close>

text \<open>
  Apart from the two projections' \<^verbatim>\<open>value\<close>, every method is a composition of numpy's
  elementwise operations on \<^verbatim>\<open>point\<close> and scalars, so it acts on each entry by the
  scalar function below, where every division by a quantity that can be zero is a
  \<open>fdiv\<close>.
\<close>

definition Square_value :: "real \<Rightarrow> error + real" where
  "Square_value u = Inr (u ^ 2 / 2)"

definition Square_gradient :: "real \<Rightarrow> error + real" where
  "Square_gradient u = Inr u"

definition VminProj_gradient :: "real \<Rightarrow> real \<Rightarrow> error + real" where
  "VminProj_gradient vmin u = Inr (if u > vmin then 0 else u - vmin)"

definition VmaxProj_gradient :: "real \<Rightarrow> real \<Rightarrow> error + real" where
  "VmaxProj_gradient vmax u = Inr (if u < vmax then 0 else u - vmax)"

definition Hyperbolic_value :: "real \<Rightarrow> real \<Rightarrow> error + real" where
  "Hyperbolic_value delta u =
     err_bind (fdiv (u ^ 2) (delta ^ 2)) (\<lambda>q. Inr (sqrt (1 + q) - 1))"

definition Hyperbolic_gradient :: "real \<Rightarrow> real \<Rightarrow> error + real" where
  "Hyperbolic_gradient delta u =
     err_bind (fdiv u (delta ^ 2)) (\<lambda>a.
     err_bind (fdiv (u ^ 2) (delta ^ 2)) (\<lambda>q. Inr (a * sqrt (1 + q))))"

definition Huber_value :: "real \<Rightarrow> real \<Rightarrow> error + real" where
  "Huber_value delta u = Inr (if \<bar>u\<bar> \<le> delta then u ^ 2 else \<bar>u\<bar>)"

definition Huber_gradient :: "real \<Rightarrow> real \<Rightarrow> error + real" where
  "Huber_gradient delta u = Inr (if \<bar>u\<bar> \<le> delta then 2 * u else 2 * delta * sgn u)"

definition GemanMcClure_value :: "real \<Rightarrow> real \<Rightarrow> error + real" where
  "GemanMcClure_value delta u = fdiv (u ^ 2) (2 * delta ^ 2 + u ^ 2)"

definition GemanMcClure_gradient :: "real \<Rightarrow> real \<Rightarrow> error + real" where
  "GemanMcClure_gradient delta u = fdiv (4 * u * delta ^ 2) ((2 * delta ^ 2 + u ^ 2) ^ 2)"

definition SquareTruncApprox_value :: "real \<Rightarrow> real \<Rightarrow> error + real" where
  "SquareTruncApprox_value delta u =
     err_bind (fdiv (- (u ^ 2)) (2 * delta ^ 2)) (\<lambda>q. Inr (1 - exp q))"

definition SquareTruncApprox_gradient :: "real \<Rightarrow> real \<Rightarrow> error + real" where
  "SquareTruncApprox_gradient delta u =
     err_bind (fdiv u (delta ^ 2)) (\<lambda>a.
     err_bind (fdiv (- (u ^ 2)) (2 * delta ^ 2)) (\<lambda>q. Inr (a * exp q)))"

definition HerbertLeahy_value :: "real \<Rightarrow> real \<Rightarrow> error + real" where
  "HerbertLeahy_value delta u =
     err_bind (fdiv (u ^ 2) (delta ^ 2)) (\<lambda>q. Inr (ln (1 + q)))"

definition HerbertLeahy_gradient :: "real \<Rightarrow> real \<Rightarrow> error + real" where
  "HerbertLeahy_gradient delta u = fdiv (2 * u) (delta ^ 2 + u ^ 2)"

subsection \<open>The methods on arrays\<close>

text \<open>
  \<^verbatim>\<open>VminProj.value\<close> and \<^verbatim>\<open>VmaxProj.value\<close> sum over the selected entries and
  return a scalar.
\<close>

definition VminProj_value :: "real \<Rightarrow> real ndarray \<Rightarrow> error + real ndarray" where
  "VminProj_value vmin point =
     Inr (scalar (sum_list (map (\<lambda>u. (u - vmin) ^ 2 / 2) (filter (\<lambda>u. u < vmin) (data point)))))"

definition VmaxProj_value :: "real \<Rightarrow> real ndarray \<Rightarrow> error + real ndarray" where
  "VmaxProj_value vmax point =
     Inr (scalar (sum_list (map (\<lambda>u. (u - vmax) ^ 2 / 2) (filter (\<lambda>u. u > vmax) (data point)))))"

definition Potential_value :: "Potential \<Rightarrow> real ndarray \<Rightarrow> error + real ndarray" where
  "Potential_value p point =
     (case cls p of
        VminProj vmin \<Rightarrow> VminProj_value vmin point
      | VmaxProj vmax \<Rightarrow> VmaxProj_value vmax point
      | Square \<Rightarrow> nd_map_err Square_value point
      | Hyperbolic delta \<Rightarrow> nd_map_err (Hyperbolic_value delta) point
      | Huber delta \<Rightarrow> nd_map_err (Huber_value delta) point
      | GemanMcClure delta \<Rightarrow> nd_map_err (GemanMcClure_value delta) point
      | SquareTruncApprox delta \<Rightarrow> nd_map_err (SquareTruncApprox_value delta) point
      | HerbertLeahy delta \<Rightarrow> nd_map_err (HerbertLeahy_value delta) point)"

definition gradient1 :: "Potential \<Rightarrow> real \<Rightarrow> error + real" where
  "gradient1 p =
     (case cls p of
        VminProj vmin \<Rightarrow> VminProj_gradient vmin
      | VmaxProj vmax \<Rightarrow> VmaxProj_gradient vmax
      | Square \<Rightarrow> Square_gradient
      | Hyperbolic delta \<Rightarrow> Hyperbolic_gradient delta
      | Huber delta \<Rightarrow> Huber_gradient delta
      | GemanMcClure delta \<Rightarrow> GemanMcClure_gradient delta
      | SquareTruncApprox delta \<Rightarrow> SquareTruncApprox_gradient delta
      | HerbertLeahy delta \<Rightarrow> HerbertLeahy_gradient delta)"

definition Potential_gradient :: "Potential \<Rightarrow> real ndarray \<Rightarrow> error + real ndarray" where
  "Potential_gradient p point = nd_map_err (gradient1 p) point"

text \<open>
  The base class's \<^verbatim>\<open>gr_coeffs\<close>, which no subclass overrides:
  \<^verbatim>\<open>aux = self.inf * np.ones_like(point)\<close> (every entry is \<^verbatim>\<open>inf\<close>, finite or not),
  \<^verbatim>\<open>idx = point != 0\<close>, \<^verbatim>\<open>aux[idx] = self.gradient(point[idx]) / point[idx]\<close>.
\<close>

definition Potential_gr_coeffs :: "Potential \<Rightarrow> real ndarray \<Rightarrow> error + xreal ndarray" where
  "Potential_gr_coeffs p point =
     (let aux = nd_map (\<lambda>_. inf_attr p) point;
          idx = nd_map (\<lambda>u. u \<noteq> 0) point
      in err_bind (mask_get point idx) (\<lambda>sel.
         err_bind (Potential_gradient p sel) (\<lambda>g.
         err_bind (nd_div g sel) (\<lambda>q.
         mask_set aux idx (nd_map Finite q)))))"

section \<open>Matrices and reshaping\<close>

text \<open>
  \<^verbatim>\<open>np.reshape(a, shape)\<close> keeps the entries in row-major order and raises when the sizes
  differ; \<^verbatim>\<open>reshape((-1, 1))\<close> always yields the column of all entries.
\<close>

definition reshape :: "nat list \<Rightarrow> 'a ndarray \<Rightarrow> error + 'a ndarray" where
  "reshape s a = (if prod_list s = nd_size a then Inr (NDArray s (data a)) else Inl ShapeError)"

definition reshape_col :: "'a ndarray \<Rightarrow> 'a ndarray" where
  "reshape_col a = NDArray [nd_size a, 1] (data a)"

definition zeros_like :: "real ndarray \<Rightarrow> real ndarray" where
  "zeros_like a = nd_map (\<lambda>_. 0) a"

definition nd_neg :: "real ndarray \<Rightarrow> real ndarray" where
  "nd_neg a = nd_map uminus a"

text \<open>\<^verbatim>\<open>np.tile(a, 2)\<close> repeats the array twice along its last axis.\<close>

definition tile2 :: "'a ndarray \<Rightarrow> 'a ndarray" where
  "tile2 a =
     (case rev (shape a) of
        [] \<Rightarrow> NDArray [2] (data a @ data a)
      | n # rs \<Rightarrow> NDArray (rev rs @ [2 * n])
                   (concat (map (\<lambda>r. r @ r) (chunks n (prod_list rs) (data a)))))"

text \<open>\<^verbatim>\<open>numpy.linalg.norm\<close> without further arguments: the 2-norm of all entries.\<close>

definition la_norm :: "real ndarray \<Rightarrow> real" where
  "la_norm a = sqrt (sum_list (map (\<lambda>v. v ^ 2) (data a)))"

text \<open>
  The rows and columns of an array read as a matrix: \<^verbatim>\<open>np.c_\<close> reads a scalar as a
  1 by 1 matrix and a one-dimensional array as a column.
\<close>

definition matrix_shape :: "nat list \<Rightarrow> (nat \<times> nat) option" where
  "matrix_shape s =
     (case s of [] \<Rightarrow> Some (1, 1) | [n] \<Rightarrow> Some (n, 1) | [r, c] \<Rightarrow> Some (r, c) | _ \<Rightarrow> None)"

definition np_c :: "'a ndarray \<Rightarrow> 'a ndarray \<Rightarrow> error + 'a ndarray" where
  "np_c a b =
     (case (matrix_shape (shape a), matrix_shape (shape b)) of
        (Some (r1, c1), Some (r2, c2)) \<Rightarrow>
          if r1 = r2
          then Inr (NDArray [r1, c1 + c2]
                      (concat (map2 (@) (chunks c1 r1 (data a)) (chunks c2 r2 (data b)))))
          else Inl ShapeError
      | _ \<Rightarrow> Inl Unsupported)"

text \<open>
  The transpose \<^verbatim>\<open>a.T\<close> and the product \<^verbatim>\<open>a @ b\<close> of two-dimensional arrays. The
  product rejects a scalar operand; operands of other ranks are not followed.
\<close>

definition columns :: "nat \<Rightarrow> nat \<Rightarrow> 'a list \<Rightarrow> 'a list list" where
  "columns r c d = map (\<lambda>j. map (\<lambda>row. row ! j) (chunks c r d)) [0..<c]"

definition nd_T :: "'a ndarray \<Rightarrow> error + 'a ndarray" where
  "nd_T a =
     (case shape a of
        [] \<Rightarrow> Inr a
      | [n] \<Rightarrow> Inr a
      | [r, c] \<Rightarrow> Inr (NDArray [c, r] (concat (columns r c (data a))))
      | _ \<Rightarrow> Inl Unsupported)"

definition matmul :: "real ndarray \<Rightarrow> real ndarray \<Rightarrow> error + real ndarray" where
  "matmul a b =
     (case (shape a, shape b) of
        ([n, k], [k', m]) \<Rightarrow>
          if k = k'
          then Inr (NDArray [n, m]
                      (concat (map (\<lambda>r. map (\<lambda>c. sum_list (map2 (*) r c)) (columns k m (data b)))
                                 (chunks k n (data a)))))
          else Inl ShapeError
      | _ \<Rightarrow> if shape a = [] \<or> shape b = [] then Inl ShapeError else Inl Unsupported)"

text \<open>
  Python's \<^verbatim>\<open>sum\<close> over a generator starts from the integer 0 and adds the items one
  after the other, each computed when its turn comes. The integer 0 is the array without
  axes whose entry is 0.
\<close>

definition py_sum :: "('a \<Rightarrow> error + real ndarray) \<Rightarrow> 'a list \<Rightarrow> error + real ndarray" where
  "py_sum f xs =
     foldl (\<lambda>acc x. err_bind acc (\<lambda>a. err_bind (f x) (\<lambda>v. nd_add a v))) (Inr (scalar 0)) xs"

text \<open>The in-place \<^verbatim>\<open>a += b\<close> and \<^verbatim>\<open>a /= b\<close> keep the shape of \<^verbatim>\<open>a\<close>.\<close>

definition iadd :: "real ndarray \<Rightarrow> real ndarray \<Rightarrow> error + real ndarray" where
  "iadd a b = err_bind (nd_add a b) (\<lambda>r. if shape r = shape a then Inr r else Inl ShapeError)"

definition idiv :: "real ndarray \<Rightarrow> real ndarray \<Rightarrow> error + real ndarray" where
  "idiv a b =
     (case broadcast_shapes (shape a) (shape b) of
        None \<Rightarrow> Inl ShapeError
      | Some s \<Rightarrow> if s = shape a then nd_div a b else Inl ShapeError)"

section \<open>The solvers\<close>

text \<open>
  The solvers ask three methods of a criterion: \<^verbatim>\<open>operator\<close>, \<^verbatim>\<open>gradient\<close> and
  \<^verbatim>\<open>norm_mat_major\<close>. Each is a callable that returns an array (a float is the array
  without axes) or raises.
\<close>

record criterion =
  crit_operator :: "real ndarray \<Rightarrow> error + real ndarray"
  crit_gradient :: "real ndarray \<Rightarrow> error + real ndarray"
  crit_norm_mat_major :: "real ndarray \<Rightarrow> real ndarray \<Rightarrow> error + real ndarray"

definition vect ::
  "(real ndarray \<Rightarrow> error + real ndarray) \<Rightarrow> real ndarray \<Rightarrow> nat list \<Rightarrow> error + real ndarray" where
  "vect func point shp =
     err_bind (reshape shp point) (\<lambda>p. err_bind (func p) (\<lambda>out. Inr (reshape_col out)))"

definition gradient :: "criterion list \<Rightarrow> real ndarray \<Rightarrow> nat list \<Rightarrow> error + real ndarray" where
  "gradient crit_list point shp = py_sum (\<lambda>crit. vect (crit_gradient crit) point shp) crit_list"

subsection \<open>mmmg\<close>

text \<open>
  The variables of \<^verbatim>\<open>mmmg\<close>; \<open>mg_iterations\<close> counts the passes of the
  \<^verbatim>\<open>for\<close> loop that were entered. \<^verbatim>\<open>numpy.linalg.pinv\<close> is a parameter.
\<close>

record mmmg_state =
  mg_point :: "real ndarray"
  mg_norm_grad :: "real list"
  mg_move :: "real ndarray"
  mg_op_directions :: "real ndarray list"
  mg_step :: "real ndarray"
  mg_iterations :: nat

text \<open>The pass after the stopping test: directions, step, move and update.\<close>

definition mmmg_move ::
  "(real ndarray \<Rightarrow> error + real ndarray) \<Rightarrow> criterion list \<Rightarrow> nat list \<Rightarrow>
   real ndarray \<Rightarrow> mmmg_state \<Rightarrow> error + mmmg_state" where
  "mmmg_move pinv crit_list shp grad st =
     err_bind (np_c (nd_neg grad) (mg_move st)) (\<lambda>directions.
     err_bind (sequence_err (map (\<lambda>(crit, i_op_dir).
                 err_bind (vect (crit_operator crit) grad shp) (\<lambda>og.
                 err_bind (matmul i_op_dir (mg_step st)) (\<lambda>od. np_c og od)))
               (zip crit_list (mg_op_directions st)))) (\<lambda>op_directions.
     err_bind (py_sum (\<lambda>(crit, i_op_dir).
                 err_bind (reshape shp (mg_point st)) (\<lambda>x. crit_norm_mat_major crit i_op_dir x))
               (zip crit_list op_directions)) (\<lambda>major.
     err_bind (pinv major) (\<lambda>inv.
     err_bind (nd_T directions) (\<lambda>dt.
     err_bind (matmul dt grad) (\<lambda>dg.
     err_bind (matmul (nd_neg inv) dg) (\<lambda>step.
     err_bind (matmul directions step) (\<lambda>move.
     err_bind (iadd (mg_point st) move) (\<lambda>point.
     Inr (st\<lparr>mg_point := point, mg_move := move,
              mg_op_directions := op_directions, mg_step := step\<rparr>))))))))))"

fun mmmg_loop ::
  "(real ndarray \<Rightarrow> error + real ndarray) \<Rightarrow> criterion list \<Rightarrow> nat list \<Rightarrow> real \<Rightarrow>
   nat \<Rightarrow> mmmg_state \<Rightarrow> error + mmmg_state" where
  "mmmg_loop pinv crit_list shp tol 0 st = Inr st"
| "mmmg_loop pinv crit_list shp tol (Suc n) st =
     err_bind (gradient crit_list (mg_point st) shp) (\<lambda>grad.
     let st1 = st\<lparr>mg_norm_grad := mg_norm_grad st @ [la_norm grad],
                  mg_iterations := Suc (mg_iterations st)\<rparr>
     in if last (mg_norm_grad st1) < real (nd_size (mg_point st1)) * tol
        then Inr st1
        else err_bind (mmmg_move pinv crit_list shp grad st1)
               (mmmg_loop pinv crit_list shp tol n))"

definition mmmg_run ::
  "(real ndarray \<Rightarrow> error + real ndarray) \<Rightarrow> criterion list \<Rightarrow> real ndarray \<Rightarrow> real \<Rightarrow>
   nat \<Rightarrow> error + mmmg_state" where
  "mmmg_run pinv crit_list init tol max_iter =
     (let point = reshape_col init;
          move = zeros_like point
      in err_bind (sequence_err (map (\<lambda>crit.
                     err_bind (vect (crit_operator crit) move (shape init))
                       (\<lambda>v. Inr (tile2 v))) crit_list)) (\<lambda>op_directions.
         mmmg_loop pinv crit_list (shape init) tol max_iter
           \<lparr>mg_point = point, mg_norm_grad = [], mg_move = move,
            mg_op_directions = op_directions, mg_step = NDArray [2, 1] [1, 1],
            mg_iterations = 0\<rparr>))"

definition mmmg ::
  "(real ndarray \<Rightarrow> error + real ndarray) \<Rightarrow> criterion list \<Rightarrow> real ndarray \<Rightarrow> real \<Rightarrow>
   nat \<Rightarrow> error + real ndarray \<times> real list" where
  "mmmg pinv crit_list init tol max_iter =
     err_bind (mmmg_run pinv crit_list init tol max_iter) (\<lambda>st.
     err_bind (reshape (shape init) (mg_point st)) (\<lambda>minimiser.
     Inr (minimiser, mg_norm_grad st)))"

text \<open>
  An example criterion on one unknown: the quadratic \<open>(x - 1)\<^sup>2 / 2\<close> with the identity
  as operator, whose majorant matrix is \<open>W\<^sup>T W\<close>.
\<close>

definition example_crit :: criterion where
  "example_crit =
     \<lparr>crit_operator = Inr,
      crit_gradient = (\<lambda>x. nd_sub x (scalar 1)),
      crit_norm_mat_major = (\<lambda>W x. err_bind (nd_T W) (\<lambda>t. matmul t W))\<rparr>"


subsection \<open>mmcg\<close>

text \<open>
  Python's \<^verbatim>\<open>if\<close> on an array takes the truth value of its only entry and raises
  for an array of several entries.
\<close>

definition truth_value :: "bool ndarray \<Rightarrow> error + bool" where
  "truth_value b = (case data b of [v] \<Rightarrow> Inr v | _ \<Rightarrow> Inl TruthError)"

text \<open>
  The variables of \<^verbatim>\<open>mmcg\<close>; \<open>cg_iterations\<close> counts the passes of the
  \<^verbatim>\<open>for\<close> loop that were entered.
\<close>

record mmcg_state =
  cg_point :: "real ndarray"
  cg_residual :: "real ndarray"
  cg_sec :: "real ndarray"
  cg_direction :: "real ndarray"
  cg_delta :: "real ndarray"
  cg_norm_res :: "real list"
  cg_iterations :: nat

text \<open>
  The part of a pass after the stopping test, lines \<^verbatim>\<open>delta_old = delta\<close> to
  \<^verbatim>\<open>direction = sec\<close>; \<open>st\<close> holds the new residual and the old \<open>sec\<close>,
  \<open>direction\<close> and \<open>delta\<close>.
\<close>

definition mmcg_direction ::
  "(real ndarray \<Rightarrow> error + real ndarray) \<Rightarrow> mmcg_state \<Rightarrow> error + mmcg_state" where
  "mmcg_direction precond st =
     (let delta_old = cg_delta st
      in err_bind (nd_T (cg_residual st)) (\<lambda>rt.
         err_bind (matmul rt (cg_sec st)) (\<lambda>delta_mid.
         err_bind (precond (cg_residual st)) (\<lambda>sec.
         err_bind (matmul rt sec) (\<lambda>delta.
         err_bind (nd_sub delta delta_mid) (\<lambda>num.
         err_bind (nd_div num delta_old) (\<lambda>beta.
         err_bind (truth_value (nd_map (\<lambda>v. 0 \<le> v) beta)) (\<lambda>nonneg.
         if nonneg
         then err_bind (nd_mul beta (cg_direction st)) (\<lambda>bd.
              err_bind (nd_add sec bd) (\<lambda>direction.
              Inr (st\<lparr>cg_sec := sec, cg_delta := delta, cg_direction := direction\<rparr>)))
         else Inr (st\<lparr>cg_sec := sec, cg_delta := delta, cg_direction := sec\<rparr>)))))))))"

text \<open>One pass of the loop; the flag tells whether the stopping test held.\<close>

definition mmcg_pass ::
  "(real ndarray \<Rightarrow> error + real ndarray) \<Rightarrow> criterion list \<Rightarrow> nat list \<Rightarrow> real \<Rightarrow>
   mmcg_state \<Rightarrow> error + bool \<times> mmcg_state" where
  "mmcg_pass precond crit_list shp tol st =
     err_bind (sequence_err (map (\<lambda>crit. vect (crit_operator crit) (cg_direction st) shp)
                 crit_list)) (\<lambda>op_direction.
     err_bind (nd_T (cg_direction st)) (\<lambda>dt.
     err_bind (matmul dt (cg_residual st)) (\<lambda>step0.
     err_bind (py_sum (\<lambda>(crit, i_op_dir).
                 err_bind (reshape shp (cg_point st)) (\<lambda>x. crit_norm_mat_major crit i_op_dir x))
               (zip crit_list op_direction)) (\<lambda>major.
     err_bind (idiv step0 major) (\<lambda>step.
     err_bind (nd_mul step (cg_direction st)) (\<lambda>sd.
     err_bind (iadd (cg_point st) sd) (\<lambda>point.
     err_bind (gradient crit_list point shp) (\<lambda>g.
     let residual = nd_neg g;
         st1 = st\<lparr>cg_point := point, cg_residual := residual,
                  cg_norm_res := cg_norm_res st @ [la_norm residual],
                  cg_iterations := Suc (cg_iterations st)\<rparr>
     in if last (cg_norm_res st1) < real (nd_size point) * tol
        then Inr (True, st1)
        else err_bind (mmcg_direction precond st1) (\<lambda>st2. Inr (False, st2))))))))))"

fun mmcg_loop ::
  "(real ndarray \<Rightarrow> error + real ndarray) \<Rightarrow> criterion list \<Rightarrow> nat list \<Rightarrow> real \<Rightarrow>
   nat \<Rightarrow> mmcg_state \<Rightarrow> error + mmcg_state" where
  "mmcg_loop precond crit_list shp tol 0 st = Inr st"
| "mmcg_loop precond crit_list shp tol (Suc n) st =
     err_bind (mmcg_pass precond crit_list shp tol st) (\<lambda>(stop, st1).
     if stop then Inr st1 else mmcg_loop precond crit_list shp tol n st1)"

definition mmcg_run ::
  "(real ndarray \<Rightarrow> error + real ndarray) option \<Rightarrow> criterion list \<Rightarrow> real ndarray \<Rightarrow>
   real \<Rightarrow> nat \<Rightarrow> error + mmcg_state" where
  "mmcg_run precond_arg crit_list init tol max_iter =
     (let precond = (case precond_arg of None \<Rightarrow> Inr | Some f \<Rightarrow> f);
          point = reshape_col init
      in err_bind (gradient crit_list point (shape init)) (\<lambda>g.
         let residual = nd_neg g
         in err_bind (precond residual) (\<lambda>sec.
            err_bind (nd_T residual) (\<lambda>rt.
            err_bind (matmul rt sec) (\<lambda>delta.
            mmcg_loop precond crit_list (shape init) tol max_iter
              \<lparr>cg_point = point, cg_residual = residual, cg_sec = sec, cg_direction = sec,
               cg_delta = delta, cg_norm_res = [la_norm residual], cg_iterations = 0\<rparr>)))))"

definition mmcg ::
  "(real ndarray \<Rightarrow> error + real ndarray) option \<Rightarrow> criterion list \<Rightarrow> real ndarray \<Rightarrow>
   real \<Rightarrow> nat \<Rightarrow> error + real ndarray \<times> real list" where
  "mmcg precond_arg crit_list init tol max_iter =
     err_bind (mmcg_run precond_arg crit_list init tol max_iter) (\<lambda>st.
     err_bind (reshape (shape init) (cg_point st)) (\<lambda>minimiser.
     Inr (minimiser, cg_norm_res st)))"

text \<open>
  An example criterion on two unknowns: operator \<open>diag(1, 2)\<close>, gradient
  \<open>diag(1, 4) x - (3, 4)\<close>, majorant matrix \<open>W\<^sup>T W\<close>.
\<close>

definition example_crit2 :: criterion where
  "example_crit2 =
     \<lparr>crit_operator = (\<lambda>x. nd_mul x (NDArray [2] [1, 2])),
      crit_gradient = (\<lambda>x. err_bind (nd_mul x (NDArray [2] [1, 4]))
                             (\<lambda>y. nd_sub y (NDArray [2] [3, 4]))),
      crit_norm_mat_major = (\<lambda>W x. err_bind (nd_T W) (\<lambda>t. matmul t W))\<rparr>"


section \<open>Criteria\<close>

text \<open>
  What \<^verbatim>\<open>operator\<close> returns, \<^verbatim>\<open>adjoint\<close> takes and \<^verbatim>\<open>mean\<close> is: an array or
  a list of arrays.
\<close>

datatype arr_or_list = Arr "real ndarray" | ArrList "real ndarray list"

text \<open>
  The attributes of a \<^verbatim>\<open>Criterion\<close>; \<open>stacked\<close>, \<open>shapes\<close>, \<open>idx\<close> and
  \<open>mean_vec\<close> stand for \<^verbatim>\<open>_stacked\<close>, \<^verbatim>\<open>_shape\<close>, \<^verbatim>\<open>_idx\<close> and
  \<^verbatim>\<open>_mean\<close>. The second and third exist only when \<^verbatim>\<open>mean\<close> is a list.
\<close>

record Criterion =
  operator :: "real ndarray \<Rightarrow> error + arr_or_list"
  adjoint :: "arr_or_list \<Rightarrow> error + real ndarray"
  mean :: arr_or_list
  stacked :: bool
  shapes :: "nat list list"
  idx :: "nat list"
  mean_vec :: "real ndarray"
  hyper :: real
  potential :: Potential

text \<open>\<^verbatim>\<open>np.cumsum\<close> of a list.\<close>

fun cumsum_from :: "nat \<Rightarrow> nat list \<Rightarrow> nat list" where
  "cumsum_from acc [] = []"
| "cumsum_from acc (x # xs) = (acc + x) # cumsum_from (acc + x) xs"

text \<open>
  \<^verbatim>\<open>_list2vec\<close>: \<^verbatim>\<open>np.vstack\<close> of the columns of the arrays; it raises on the empty
  list.
\<close>

definition list2vec :: "real ndarray list \<Rightarrow> error + real ndarray" where
  "list2vec arr_list =
     (if arr_list = [] then Inl ValueError
      else Inr (NDArray [sum_list (map nd_size arr_list), 1] (concat (map data arr_list))))"

definition Criterion_init ::
  "(real ndarray \<Rightarrow> error + arr_or_list) \<Rightarrow> (arr_or_list \<Rightarrow> error + real ndarray) \<Rightarrow>
   Potential \<Rightarrow> real \<Rightarrow> arr_or_list \<Rightarrow> error + Criterion" where
  "Criterion_init operator_arg adjoint_arg potential_arg hyper_arg mean_arg =
     (case mean_arg of
        ArrList arrs \<Rightarrow>
          err_bind (list2vec arrs) (\<lambda>mv.
          Inr \<lparr>operator = operator_arg, adjoint = adjoint_arg, mean = mean_arg,
               stacked = True, shapes = map shape arrs,
               idx = cumsum_from 0 (0 # map nd_size arrs), mean_vec = mv,
               hyper = hyper_arg, potential = potential_arg\<rparr>)
      | Arr a \<Rightarrow>
          Inr \<lparr>operator = operator_arg, adjoint = adjoint_arg, mean = mean_arg,
               stacked = False, shapes = [], idx = [], mean_vec = a,
               hyper = hyper_arg, potential = potential_arg\<rparr>)"

text \<open>
  The slice \<^verbatim>\<open>arr[a:b]\<close> along the first axis, clipped to the array; an array
  without axes cannot be sliced.
\<close>

definition slice_rows :: "nat \<Rightarrow> nat \<Rightarrow> 'a ndarray \<Rightarrow> error + 'a ndarray" where
  "slice_rows a b arr =
     (case shape arr of
        [] \<Rightarrow> Inl IndexError
      | n # rest \<Rightarrow>
          let lo = min a n; hi = max lo (min b n)
          in Inr (NDArray ((hi - lo) # rest)
                    (take ((hi - lo) * prod_list rest) (drop (lo * prod_list rest) (data arr)))))"

text \<open>\<^verbatim>\<open>_vec2list\<close>: the slices between consecutive offsets, each in its shape.\<close>

definition vec2list :: "Criterion \<Rightarrow> real ndarray \<Rightarrow> error + real ndarray list" where
  "vec2list c arr =
     sequence_err (map (\<lambda>(shp, a, b). err_bind (slice_rows a b arr) (reshape shp))
                     (zip (shapes c) (zip (idx c) (tl (idx c)))))"

text \<open>
  \<^verbatim>\<open>_operator\<close>. With a list as mean, the result of \<^verbatim>\<open>operator\<close> is stacked; an
  array there is iterated along its first axis, which gives its column, and raises
  when it has no axis or no row. Without a list as mean the result is passed on, and the
  arithmetic that follows is not followed for a list.
\<close>

definition Criterion_operator :: "Criterion \<Rightarrow> real ndarray \<Rightarrow> error + real ndarray" where
  "Criterion_operator c point =
     err_bind (operator c point) (\<lambda>out.
     if stacked c
     then (case out of
             ArrList arrs \<Rightarrow> list2vec arrs
           | Arr a \<Rightarrow> (case shape a of
                         [] \<Rightarrow> Inl TypeError
                       | n # rest \<Rightarrow> if n = 0 then Inl ValueError else Inr (reshape_col a)))
     else (case out of Arr a \<Rightarrow> Inr a | ArrList arrs \<Rightarrow> Inl Unsupported))"

definition Criterion_adjoint :: "Criterion \<Rightarrow> real ndarray \<Rightarrow> error + real ndarray" where
  "Criterion_adjoint c point =
     (if stacked c
      then err_bind (vec2list c point) (\<lambda>arrs. adjoint c (ArrList arrs))
      else adjoint c (Arr point))"

definition Criterion_value :: "Criterion \<Rightarrow> real ndarray \<Rightarrow> error + real" where
  "Criterion_value c point =
     err_bind (Criterion_operator c point) (\<lambda>out.
     err_bind (nd_sub out (mean_vec c)) (\<lambda>obj.
     err_bind (Potential_value (potential c) obj) (\<lambda>v.
     Inr (hyper c * sum_list (data v)))))"

definition Criterion_gradient :: "Criterion \<Rightarrow> real ndarray \<Rightarrow> error + real ndarray" where
  "Criterion_gradient c point =
     err_bind (Criterion_operator c point) (\<lambda>out.
     err_bind (nd_sub out (mean_vec c)) (\<lambda>obj.
     err_bind (Potential_gradient (potential c) obj) (\<lambda>g.
     err_bind (Criterion_adjoint c g) (\<lambda>a.
     Inr (nd_map ((*) (hyper c)) a)))))"

definition Criterion_gr_coeffs :: "Criterion \<Rightarrow> real ndarray \<Rightarrow> error + xreal ndarray" where
  "Criterion_gr_coeffs c point =
     err_bind (Criterion_operator c point) (\<lambda>out.
     err_bind (nd_sub out (mean_vec c)) (\<lambda>obj.
     Potential_gr_coeffs (potential c) obj))"

text \<open>An array with an infinite entry leaves the real numbers in any product.\<close>

definition finite_entries :: "xreal ndarray \<Rightarrow> error + real ndarray" where
  "finite_entries a =
     nd_map_err (\<lambda>v. case v of Finite r \<Rightarrow> Inr r | PosInf \<Rightarrow> Inl NonFinite) a"

text \<open>
  \<^verbatim>\<open>norm_mat_major\<close>: the matrix \<^verbatim>\<open>vecs.T @ (b.reshape((-1, 1)) * vecs)\<close> for the
  coefficients \<open>b\<close>, then its only entry as a float when it has one entry.
\<close>

definition major_matrix :: "real ndarray \<Rightarrow> real ndarray \<Rightarrow> error + real ndarray" where
  "major_matrix b vecs =
     err_bind (nd_T vecs) (\<lambda>vt.
     err_bind (nd_mul (reshape_col b) vecs) (\<lambda>bv. matmul vt bv))"

definition float_if_single :: "real ndarray \<Rightarrow> error + real ndarray" where
  "float_if_single matrix =
     (if nd_size matrix = 1
      then (case data matrix of [v] \<Rightarrow> Inr (scalar v) | _ \<Rightarrow> Inl Unsupported)
      else Inr matrix)"

definition Criterion_norm_mat_major ::
  "Criterion \<Rightarrow> real ndarray \<Rightarrow> real ndarray \<Rightarrow> error + real ndarray" where
  "Criterion_norm_mat_major c vecs point =
     err_bind (nd_T vecs) (\<lambda>vt.
     err_bind (Criterion_gr_coeffs c point) (\<lambda>coeffs.
     err_bind (finite_entries coeffs) (\<lambda>b.
     err_bind (major_matrix b vecs) float_if_single)))"

subsection \<open>QuadCriterion\<close>

record QuadCriterion =
  base :: Criterion
  normal :: "real ndarray \<Rightarrow> error + real ndarray"
  mean_t :: "real ndarray"

definition QuadCriterion_init ::
  "(real ndarray \<Rightarrow> error + arr_or_list) \<Rightarrow> (arr_or_list \<Rightarrow> error + real ndarray) \<Rightarrow>
   (real ndarray \<Rightarrow> error + real ndarray) \<Rightarrow> real \<Rightarrow> arr_or_list \<Rightarrow> error + QuadCriterion" where
  "QuadCriterion_init operator_arg adjoint_arg normal_arg hyper_arg mean_arg =
     err_bind Square_init (\<lambda>square.
     err_bind (Criterion_init operator_arg adjoint_arg square hyper_arg mean_arg) (\<lambda>c.
     err_bind (Criterion_adjoint c (mean_vec c)) (\<lambda>mt.
     Inr \<lparr>base = c, normal = normal_arg, mean_t = mt\<rparr>)))"

definition QuadCriterion_value :: "QuadCriterion \<Rightarrow> real ndarray \<Rightarrow> error + real" where
  "QuadCriterion_value q point =
     err_bind (Criterion_operator (base q) point) (\<lambda>out.
     err_bind (nd_sub out (mean_vec (base q))) (\<lambda>obj.
     Inr (hyper (base q) * sum_list (map (\<lambda>u. u ^ 2) (data obj)) / 2)))"

definition QuadCriterion_gradient :: "QuadCriterion \<Rightarrow> real ndarray \<Rightarrow> error + real ndarray" where
  "QuadCriterion_gradient q point =
     err_bind (normal q point) (\<lambda>nx.
     err_bind (nd_sub nx (mean_t q)) (\<lambda>d.
     Inr (nd_map ((*) (hyper (base q))) d)))"

definition QuadCriterion_norm_mat_major ::
  "QuadCriterion \<Rightarrow> real ndarray \<Rightarrow> real ndarray \<Rightarrow> error + real ndarray" where
  "QuadCriterion_norm_mat_major q vecs point = err_bind (nd_T vecs) (\<lambda>vt. matmul vt vecs)"

definition QuadCriterion_gr_coeffs :: "QuadCriterion \<Rightarrow> real ndarray \<Rightarrow> error + real ndarray" where
  "QuadCriterion_gr_coeffs q point = Inr (scalar 1)"

text \<open>
  Callables for examples: the identity as operator and as adjoint, and an adjoint that
  adds 1 to every entry, which is not linear.
\<close>

definition id_operator :: "real ndarray \<Rightarrow> error + arr_or_list" where
  "id_operator x = Inr (Arr x)"

definition id_adjoint :: "arr_or_list \<Rightarrow> error + real ndarray" where
  "id_adjoint e = (case e of Arr a \<Rightarrow> Inr a | ArrList arrs \<Rightarrow> Inl Unsupported)"

definition shift_adjoint :: "arr_or_list \<Rightarrow> error + real ndarray" where
  "shift_adjoint e =
     (case e of Arr a \<Rightarrow> Inr (nd_map (\<lambda>v. v + 1) a) | ArrList arrs \<Rightarrow> Inl Unsupported)"

definition shift_normal :: "real ndarray \<Rightarrow> error + real ndarray" where
  "shift_normal x = err_bind (id_operator x) shift_adjoint"


section \<open>Properties of the array operations\<close>

lemma err_bind_Inr [simp]: "err_bind (Inr x) f = f x"
  by (simp add: err_bind_def)

lemma err_bind_Inl [simp]: "err_bind (Inl e) f = Inl e"
  by (simp add: err_bind_def)

lemma sequence_err_map_Inr:
  "(\<And>x. x \<in> set xs \<Longrightarrow> f x = Inr (g x)) \<Longrightarrow> sequence_err (map f xs) = Inr (map g xs)"
  by (induction xs) simp_all

lemma concat_chunks_one: "length d = k \<Longrightarrow> concat (chunks (Suc 0) k d) = d"
proof (induction k arbitrary: d)
  case 0 then show ?case by simp
next
  case (Suc k)
  then obtain x xs where "d = x # xs" by (cases d) auto
  with Suc show ?case by simp
qed

lemma broadcast_shapes_same1 [simp]: "broadcast_shapes [k] [k] = Some [k]"
  by (simp add: broadcast_shapes_def)

lemma map_bcast_nil: "map (bcast [] []) xs = xs"
  by (induction xs) simp_all

lemma broadcast_to_same1: "length d = k \<Longrightarrow> broadcast_to [k] (NDArray [k] d) = d"
  by (simp add: broadcast_to_def map_bcast_nil concat_chunks_one)

lemma nd_div_same1:
  assumes "length gs = length us" "\<And>u. u \<in> set us \<Longrightarrow> u \<noteq> 0"
  shows "nd_div (NDArray [length us] gs) (NDArray [length us] us)
         = Inr (NDArray [length us] (map2 (/) gs us))"
proof -
  have "sequence_err (map (\<lambda>(a, b). fdiv a b) (zip gs us)) = Inr (map (\<lambda>(a, b). a / b) (zip gs us))"
    by (rule sequence_err_map_Inr) (use assms(2) in \<open>auto simp: fdiv_def dest: set_zip_rightD\<close>)
  then show ?thesis
    using assms(1) by (simp add: nd_div_def nd_binop_def broadcast_to_same1)
qed

lemma mask_put_ne0:
  "mask_put (map (\<lambda>_. c) us) (map (\<lambda>u. u \<noteq> 0) us) (map f (filter (\<lambda>u. u \<noteq> 0) us))
   = map (\<lambda>u::real. if u \<noteq> 0 then f u else c) us"
  by (induction us) simp_all

lemma filter_zip_ne0:
  "map fst (filter snd (zip us (map (\<lambda>u. u \<noteq> 0) us))) = filter (\<lambda>u::real. u \<noteq> 0) us"
  by (induction us) simp_all

lemma filter_id_ne0:
  "length (filter id (map (\<lambda>u. u \<noteq> 0) us)) = length (filter (\<lambda>u::real. u \<noteq> 0) us)"
  by (induction us) simp_all

subsection \<open>The base class's \<open>gr_coeffs\<close>\<close>

lemma gradient1_defined:
  assumes "constructed p" "u \<noteq> 0"
  shows "\<exists>g. gradient1 p u = Inr g"
  using assms
  by (cases "cls p")
     (auto simp: constructed_def gradient1_def VminProj_gradient_def VmaxProj_gradient_def
        Square_gradient_def Hyperbolic_gradient_def Huber_gradient_def
        GemanMcClure_gradient_def SquareTruncApprox_gradient_def HerbertLeahy_gradient_def
        Hyperbolic_init_def GemanMcClure_init_def SquareTruncApprox_init_def
        fdiv_def err_bind_def sum_power2_eq_zero_iff add_nonneg_eq_0_iff
        split: if_splits)

lemma gr_coeffs_eq:
  assumes g: "\<And>u. u \<noteq> 0 \<Longrightarrow> gradient1 p u = Inr (g u)"
  shows "Potential_gr_coeffs p point =
         Inr (NDArray (shape point)
                (map (\<lambda>u. if u \<noteq> 0 then Finite (g u / u) else inf_attr p) (data point)))"
proof -
  let ?us = "filter (\<lambda>u. u \<noteq> 0) (data point)"
  have sel: "mask_get point (nd_map (\<lambda>u. u \<noteq> 0) point) = Inr (NDArray [length ?us] ?us)"
    by (simp add: mask_get_def nd_map_def filter_zip_ne0 Let_def)
  have gr: "Potential_gradient p (NDArray [length ?us] ?us) = Inr (NDArray [length ?us] (map g ?us))"
  proof -
    have "sequence_err (map (gradient1 p) ?us) = Inr (map g ?us)"
      by (rule sequence_err_map_Inr) (use g in auto)
    then show ?thesis by (simp add: Potential_gradient_def nd_map_err_def)
  qed
  have dv: "nd_div (NDArray [length ?us] (map g ?us)) (NDArray [length ?us] ?us)
            = Inr (NDArray [length ?us] (map2 (/) (map g ?us) ?us))"
    by (rule nd_div_same1) auto
  have m2: "map2 (/) (map g ?us) ?us = map (\<lambda>u. g u / u) ?us"
    by (simp add: zip_map1 zip_same_conv_map)
  have "Potential_gr_coeffs p point =
        mask_set (nd_map (\<lambda>_. inf_attr p) point) (nd_map (\<lambda>u. u \<noteq> 0) point)
          (nd_map Finite (NDArray [length ?us] (map (\<lambda>u. g u / u) ?us)))"
    unfolding Potential_gr_coeffs_def Let_def by (simp add: sel gr dv m2)
  also have "\<dots> = Inr (NDArray (shape point)
                (map (\<lambda>u. if u \<noteq> 0 then Finite (g u / u) else inf_attr p) (data point)))"
    using mask_put_ne0 [of "inf_attr p" "data point" "\<lambda>u. Finite (g u / u)"]
    by (simp add: mask_set_def nd_map_def filter_id_ne0 broadcast_to_same1 Let_def comp_def)
  finally show ?thesis .
qed

lemma Potential_gradient_scalar:
  "gradient1 p u = Inr g \<Longrightarrow> Potential_gradient p (scalar u) = Inr (scalar g)"
  by (simp add: Potential_gradient_def nd_map_err_def scalar_def)

text \<open>
  C8. For every potential a constructor builds and every array \<open>point\<close>, the base
  class's \<open>gr_coeffs\<close> returns: no division by zero stops it. The result has the
  shape of \<open>point\<close>; its entry is the attribute \<open>inf\<close> where the entry of
  \<open>point\<close> is 0, and \<open>gradient(u) / u\<close> where the entry \<open>u\<close> is not 0.
\<close>

theorem Potential_gr_coeffs_total:
  assumes "constructed p"
  shows "\<exists>q. Potential_gr_coeffs p point = Inr q \<and> shape q = shape point
           \<and> length (data q) = length (data point)
           \<and> (\<forall>i < length (data point).
                 (data point ! i = 0 \<longrightarrow> data q ! i = inf_attr p)
               \<and> (data point ! i \<noteq> 0 \<longrightarrow>
                    (\<exists>g. Potential_gradient p (scalar (data point ! i)) = Inr (scalar g)
                       \<and> data q ! i = Finite (g / data point ! i))))"
proof -
  from gradient1_defined [OF assms]
  have "\<forall>u. \<exists>g. u \<noteq> 0 \<longrightarrow> gradient1 p u = Inr g" by blast
  then obtain g where g: "\<And>u. u \<noteq> 0 \<Longrightarrow> gradient1 p u = Inr (g u)"
    by metis
  let ?q = "NDArray (shape point)
              (map (\<lambda>u. if u \<noteq> 0 then Finite (g u / u) else inf_attr p) (data point))"
  have "Potential_gr_coeffs p point = Inr ?q"
    by (rule gr_coeffs_eq) (rule g)
  moreover have "\<forall>i < length (data point).
                 (data point ! i = 0 \<longrightarrow> data ?q ! i = inf_attr p)
               \<and> (data point ! i \<noteq> 0 \<longrightarrow>
                    (\<exists>g. Potential_gradient p (scalar (data point ! i)) = Inr (scalar g)
                       \<and> data ?q ! i = Finite (g / data point ! i)))"
    using g by (auto intro: Potential_gradient_scalar)
  ultimately show ?thesis by simp
qed

theorem Potential_gr_coeffs_total_witness:
  "constructed \<lparr>cls = HerbertLeahy 0, inf_attr = PosInf, convex = False, coercive = True\<rparr>
   \<and> (\<exists>q. Potential_gr_coeffs
              \<lparr>cls = HerbertLeahy 0, inf_attr = PosInf, convex = False, coercive = True\<rparr>
              (NDArray [3] [0, 2, - 1]) = Inr q
          \<and> shape q = [3] \<and> data q ! 0 = PosInf)"
proof -
  let ?p = "\<lparr>cls = HerbertLeahy 0, inf_attr = PosInf, convex = False, coercive = True\<rparr>"
  have c: "constructed ?p"
    by (simp add: constructed_def HerbertLeahy_init_def)
  from Potential_gr_coeffs_total [OF c, of "NDArray [3] [0, 2, - 1]"]
  obtain q where "Potential_gr_coeffs ?p (NDArray [3] [0, 2, - 1]) = Inr q"
    "shape q = [3]" "\<forall>i<3. ([0, 2, - 1 :: real] ! i = 0 \<longrightarrow> data q ! i = PosInf)"
    by auto
  then have "Potential_gr_coeffs ?p (NDArray [3] [0, 2, - 1]) = Inr q \<and> shape q = [3]
             \<and> data q ! 0 = PosInf"
    by auto
  with c show ?thesis by blast
qed

text \<open>
  C9. For the Square potential and every array \<open>point\<close>, every entry of
  \<open>gr_coeffs(point)\<close> is 1, also where the entry of \<open>point\<close> is 0.
\<close>

theorem Square_gr_coeffs_one:
  "err_bind Square_init (\<lambda>p. Potential_gr_coeffs p point)
   = Inr (NDArray (shape point) (map (\<lambda>_. Finite 1) (data point)))"
proof -
  let ?p = "\<lparr>cls = Square, inf_attr = Finite 1, convex = True, coercive = True\<rparr>"
  have "Potential_gr_coeffs ?p point =
        Inr (NDArray (shape point)
               (map (\<lambda>u. if u \<noteq> 0 then Finite (u / u) else inf_attr ?p) (data point)))"
    by (rule gr_coeffs_eq) (simp add: gradient1_def Square_gradient_def)
  also have "map (\<lambda>u. if u \<noteq> 0 then Finite (u / u) else inf_attr ?p) (data point)
             = map (\<lambda>_. Finite 1) (data point)"
    by (rule map_cong) auto
  finally show ?thesis by (simp add: Square_init_def)
qed

section \<open>Potentials against their derivatives\<close>

lemma sqrt_25_16: "sqrt (25 / 16) = 5 / 4"
  by (rule real_sqrt_unique) (simp_all add: power2_eq_square)

lemma Hyperbolic_value_scalar:
  "delta \<noteq> 0 \<Longrightarrow>
   err_bind (Hyperbolic_init delta) (\<lambda>p. Potential_value p (scalar u))
   = Inr (scalar (sqrt (1 + u\<^sup>2 / delta\<^sup>2) - 1))"
  by (simp add: Hyperbolic_init_def Potential_value_def nd_map_err_def scalar_def
        Hyperbolic_value_def fdiv_def)

lemma Hyperbolic_gradient_scalar:
  "delta \<noteq> 0 \<Longrightarrow>
   err_bind (Hyperbolic_init delta) (\<lambda>p. Potential_gradient p (scalar u))
   = Inr (scalar (u / delta\<^sup>2 * sqrt (1 + u\<^sup>2 / delta\<^sup>2)))"
  by (simp add: Hyperbolic_init_def Potential_gradient_def nd_map_err_def scalar_def
        gradient1_def Hyperbolic_gradient_def fdiv_def)

text \<open>The derivative of the value of \<open>Hyperbolic(delta)\<close> is the quotient by the root.\<close>

lemma Hyperbolic_value_derivative:
  assumes "delta \<noteq> 0"
  shows "((\<lambda>u. sqrt (1 + u\<^sup>2 / delta\<^sup>2) - 1) has_real_derivative
            (u / delta\<^sup>2) / sqrt (1 + u\<^sup>2 / delta\<^sup>2)) (at u)"
proof -
  have pos: "0 < 1 + u\<^sup>2 / delta\<^sup>2"
    by (rule add_pos_nonneg) simp_all
  show ?thesis
    using pos assms less_imp_neq [OF pos]
    by (auto intro!: derivative_eq_intros simp: divide_simps)
qed

text \<open>
  C1. For \<open>Hyperbolic(delta)\<close>, \<open>gradient(u)\<close> should be the derivative of the value,
  \<open>(u / delta\<^sup>2) / sqrt (1 + u\<^sup>2 / delta\<^sup>2)\<close>. The method multiplies by the root where
  the derivative divides by it: at \<open>delta = 4\<close>, \<open>u = 3\<close> it returns \<open>15/64\<close>, and the
  derivative of the value there is \<open>3/20\<close>.
\<close>

theorem Hyperbolic_gradient_multiplies:
  "err_bind (Hyperbolic_init 4) (\<lambda>p. Potential_gradient p (scalar 3)) = Inr (scalar (15 / 64))
   \<and> (\<forall>u. err_bind (Hyperbolic_init 4) (\<lambda>p. Potential_value p (scalar u))
            = Inr (scalar (sqrt (1 + u\<^sup>2 / 4\<^sup>2) - 1)))
   \<and> ((\<lambda>u. sqrt (1 + u\<^sup>2 / 4\<^sup>2) - 1) has_real_derivative 3 / 20) (at 3)
   \<and> (3 / 4\<^sup>2) / sqrt (1 + 3\<^sup>2 / 4\<^sup>2) = (3 / 20 :: real)"
proof -
  have g: "err_bind (Hyperbolic_init 4) (\<lambda>p. Potential_gradient p (scalar 3))
           = Inr (scalar (15 / 64))"
    by (simp add: Hyperbolic_gradient_scalar sqrt_25_16)
  have v: "\<forall>u. err_bind (Hyperbolic_init 4) (\<lambda>p. Potential_value p (scalar u))
            = Inr (scalar (sqrt (1 + u\<^sup>2 / 4\<^sup>2) - 1))"
    by (simp add: Hyperbolic_value_scalar)
  have q: "(3 / 4\<^sup>2) / sqrt (1 + 3\<^sup>2 / 4\<^sup>2) = (3 / 20 :: real)"
    by (simp add: sqrt_25_16)
  have d: "((\<lambda>u. sqrt (1 + u\<^sup>2 / 4\<^sup>2) - 1) has_real_derivative 3 / 20) (at 3)"
    using Hyperbolic_value_derivative [of 4 3] by (simp add: sqrt_25_16)
  from g v d q show ?thesis by blast
qed

lemma Huber_value_scalar:
  "err_bind (Huber_init delta) (\<lambda>p. Potential_value p (scalar u))
   = Inr (scalar (if \<bar>u\<bar> \<le> delta then u\<^sup>2 else \<bar>u\<bar>))"
  by (simp add: Huber_init_def Potential_value_def nd_map_err_def scalar_def Huber_value_def)

lemma Huber_gradient_scalar:
  "err_bind (Huber_init delta) (\<lambda>p. Potential_gradient p (scalar u))
   = Inr (scalar (if \<bar>u\<bar> \<le> delta then 2 * u else 2 * delta * sgn u))"
  by (simp add: Huber_init_def Potential_gradient_def nd_map_err_def scalar_def
        gradient1_def Huber_gradient_def)

lemma Huber_2_derivative_at_3:
  "((\<lambda>u::real. if \<bar>u\<bar> \<le> 2 then u\<^sup>2 else \<bar>u\<bar>) has_real_derivative 1) (at 3)"
proof (rule has_field_derivative_transform_within_open [where f = "\<lambda>u. u" and S = "{2<..}"])
  show "((\<lambda>u::real. u) has_real_derivative 1) (at 3)" by (rule DERIV_ident)
qed auto

lemma Huber_2_jump_at_2:
  "\<not> isCont (\<lambda>u::real. if \<bar>u\<bar> \<le> 2 then u\<^sup>2 else \<bar>u\<bar>) 2"
proof
  let ?f = "\<lambda>u::real. if \<bar>u\<bar> \<le> 2 then u\<^sup>2 else \<bar>u\<bar>"
  assume "isCont ?f 2"
  then have "(?f \<longlongrightarrow> ?f 2) (at 2)" by (simp add: isCont_def)
  then have "(?f \<longlongrightarrow> 4) (at_right 2)"
    by (simp add: filterlim_at_split)
  moreover have "eventually (\<lambda>u. ?f u = u) (at_right 2)"
    by (rule eventually_mono [OF eventually_at_right_less]) auto
  ultimately have "((\<lambda>u. u) \<longlongrightarrow> 4) (at_right (2::real))"
    using tendsto_cong by force
  moreover have "((\<lambda>u. u) \<longlongrightarrow> 2) (at_right (2::real))"
    by (rule tendsto_ident_at)
  ultimately show False
    using tendsto_unique [OF trivial_limit_at_right_real] by fastforce
qed

text \<open>
  C2. For \<open>Huber(delta)\<close>, the value should be \<open>u\<^sup>2\<close> for \<open>\<bar>u\<bar> \<le> delta\<close> and beyond it
  a linear function of \<open>\<bar>u\<bar>\<close> scaled by \<open>delta\<close> that continues it, and \<open>gradient\<close>
  should be the derivative of the value wherever \<open>\<bar>u\<bar> \<noteq> delta\<close>. The method returns the
  bare \<open>\<bar>u\<bar>\<close> beyond \<open>delta\<close>: at \<open>delta = 2\<close> the value jumps at \<open>u = 2\<close>, and at
  \<open>u = 3\<close> its derivative is 1 while \<open>gradient\<close> returns 4.
\<close>

theorem Huber_value_unscaled:
  "(\<forall>u. err_bind (Huber_init 2) (\<lambda>p. Potential_value p (scalar u))
          = Inr (scalar (if \<bar>u\<bar> \<le> 2 then u\<^sup>2 else \<bar>u\<bar>)))
   \<and> err_bind (Huber_init 2) (\<lambda>p. Potential_value p (scalar 3)) = Inr (scalar 3)
   \<and> \<not> isCont (\<lambda>u::real. if \<bar>u\<bar> \<le> 2 then u\<^sup>2 else \<bar>u\<bar>) 2
   \<and> ((\<lambda>u::real. if \<bar>u\<bar> \<le> 2 then u\<^sup>2 else \<bar>u\<bar>) has_real_derivative 1) (at 3)
   \<and> err_bind (Huber_init 2) (\<lambda>p. Potential_gradient p (scalar 3)) = Inr (scalar 4)"
proof -
  have "err_bind (Huber_init 2) (\<lambda>p. Potential_value p (scalar 3)) = Inr (scalar 3)"
    by (simp add: Huber_value_scalar)
  moreover have "err_bind (Huber_init 2) (\<lambda>p. Potential_gradient p (scalar 3)) = Inr (scalar 4)"
    by (simp add: Huber_gradient_scalar)
  ultimately show ?thesis
    using Huber_2_jump_at_2 Huber_2_derivative_at_3 by (simp add: Huber_value_scalar)
qed

lemma Hyperbolic_1_limit: "((\<lambda>u::real. u * sqrt (1 + u\<^sup>2) / u) \<longlongrightarrow> 1) (at 0)"
proof -
  have "((\<lambda>u::real. sqrt (1 + u\<^sup>2)) \<longlongrightarrow> sqrt (1 + 0\<^sup>2)) (at 0)"
    by (intro tendsto_intros)
  then have "((\<lambda>u::real. sqrt (1 + u\<^sup>2)) \<longlongrightarrow> 1) (at 0)" by simp
  then show ?thesis
    by (rule iffD2 [OF LIM_equal, rotated]) simp
qed

lemma Huber_1_limit:
  "((\<lambda>u::real. (if \<bar>u\<bar> \<le> 1 then 2 * u else 2 * 1 * sgn u) / u) \<longlongrightarrow> 2) (at 0)"
proof -
  have "eventually (\<lambda>u::real. (if \<bar>u\<bar> \<le> 1 then 2 * u else 2 * 1 * sgn u) / u = 2) (at 0)"
    unfolding eventually_at by (intro exI [of _ 1]) (auto simp: dist_real_def)
  then show ?thesis
    by (rule tendsto_eventually)
qed

text \<open>
  C3. The attribute \<open>inf\<close> of every potential should be the limit of
  \<open>gradient(u) / u\<close> as \<open>u\<close> tends to 0, for that potential's own \<open>gradient\<close>.
  \<open>Hyperbolic(1)\<close> stores \<open>1/2\<close>, the value that overwrites the first assignment, while
  its \<open>gradient(u) / u\<close> tends to 1; \<open>Huber(1)\<close> stores 1 while its
  \<open>gradient(u) / u\<close> tends to 2.
\<close>

theorem Hyperbolic_inf_is_not_the_limit:
  "map_sum id inf_attr (Hyperbolic_init 1) = Inr (Finite (1 / 2))
   \<and> (\<forall>u. err_bind (Hyperbolic_init 1) (\<lambda>p. Potential_gradient p (scalar u))
            = Inr (scalar (u * sqrt (1 + u\<^sup>2))))
   \<and> ((\<lambda>u::real. u * sqrt (1 + u\<^sup>2) / u) \<longlongrightarrow> 1) (at 0)
   \<and> \<not> ((\<lambda>u::real. u * sqrt (1 + u\<^sup>2) / u) \<longlongrightarrow> 1 / 2) (at 0)
   \<and> map_sum id inf_attr (Huber_init 1) = Inr (Finite 1)
   \<and> (\<forall>u. err_bind (Huber_init 1) (\<lambda>p. Potential_gradient p (scalar u))
            = Inr (scalar (if \<bar>u\<bar> \<le> 1 then 2 * u else 2 * 1 * sgn u)))
   \<and> ((\<lambda>u::real. (if \<bar>u\<bar> \<le> 1 then 2 * u else 2 * 1 * sgn u) / u) \<longlongrightarrow> 2) (at 0)"
proof -
  have i: "map_sum id inf_attr (Hyperbolic_init 1) = Inr (Finite (1 / 2))"
    by (simp add: Hyperbolic_init_def fdiv_def)
  have g: "\<forall>u. err_bind (Hyperbolic_init 1) (\<lambda>p. Potential_gradient p (scalar u))
            = Inr (scalar (u * sqrt (1 + u\<^sup>2)))"
    by (simp add: Hyperbolic_gradient_scalar)
  have n: "\<not> ((\<lambda>u::real. u * sqrt (1 + u\<^sup>2) / u) \<longlongrightarrow> 1 / 2) (at 0)"
  proof
    assume "((\<lambda>u::real. u * sqrt (1 + u\<^sup>2) / u) \<longlongrightarrow> 1 / 2) (at 0)"
    from LIM_unique [OF this Hyperbolic_1_limit] show False by simp
  qed
  have j: "map_sum id inf_attr (Huber_init 1) = Inr (Finite 1)"
    by (simp add: Huber_init_def)
  have h: "\<forall>u. err_bind (Huber_init 1) (\<lambda>p. Potential_gradient p (scalar u))
            = Inr (scalar (if \<bar>u\<bar> \<le> 1 then 2 * u else 2 * 1 * sgn u))"
    by (simp add: Huber_gradient_scalar)
  from i g n j h Hyperbolic_1_limit Huber_1_limit show ?thesis by blast
qed

section \<open>The solver \<open>mmmg\<close>\<close>

lemma err_bind_eq_Inr: "err_bind m f = Inr y \<longleftrightarrow> (\<exists>x. m = Inr x \<and> f x = Inr y)"
  by (cases m) simp_all

lemma la_norm_scalar_0 [simp]: "la_norm (scalar 0) = 0"
  by (simp add: la_norm_def scalar_def)

lemma gradient_Nil [simp]: "gradient [] point shp = Inr (scalar 0)"
  by (simp add: gradient_def py_sum_def)

lemma reshape_reshape_col: "reshape (shape a) (reshape_col a) = Inr (NDArray (shape a) (data a))"
  by (simp add: reshape_def reshape_col_def nd_size_def)

lemma mmmg_run_Nil:
  assumes "0 < nd_size init" "0 < tol"
  shows "mmmg_run pinv [] init tol (Suc n) =
         Inr \<lparr>mg_point = reshape_col init, mg_norm_grad = [0],
              mg_move = zeros_like (reshape_col init), mg_op_directions = [],
              mg_step = NDArray [2, 1] [1, 1], mg_iterations = 1\<rparr>"
  using assms
  by (simp add: mmmg_run_def Let_def reshape_col_def nd_size_def)

text \<open>
  C10. For every \<open>init\<close> of positive size, every \<open>tol > 0\<close> and every
  \<open>max_iter \<ge> 1\<close>, \<open>mmmg\<close> with an empty criterion list enters the loop once and
  returns the entries of \<open>init\<close> in the shape of \<open>init\<close> with the trace \<open>[0]\<close>:
  the sum over the empty list is 0, and the stopping test holds before any move.
\<close>

theorem mmmg_empty_list:
  assumes "0 < nd_size init" "0 < tol" "1 \<le> max_iter"
  shows "mmmg pinv [] init tol max_iter = Inr (NDArray (shape init) (data init), [0])
         \<and> map_sum id mg_iterations (mmmg_run pinv [] init tol max_iter) = Inr 1"
proof -
  from assms(3) obtain n where n: "max_iter = Suc n"
    by (cases max_iter) auto
  show ?thesis
    unfolding mmmg_def n mmmg_run_Nil [OF assms(1,2)]
    by (simp add: reshape_reshape_col)
qed

theorem mmmg_empty_list_witness:
  "0 < nd_size (NDArray [2, 2] [1, 2, 3, 4 :: real]) \<and> (0::real) < 1 / 10000 \<and> (1::nat) \<le> 500
   \<and> mmmg (\<lambda>a. Inl LinAlgError) [] (NDArray [2, 2] [1, 2, 3, 4]) (1 / 10000) 500
       = Inr (NDArray [2, 2] [1, 2, 3, 4], [0])
   \<and> map_sum id mg_iterations
         (mmmg_run (\<lambda>a. Inl LinAlgError) [] (NDArray [2, 2] [1, 2, 3, 4]) (1 / 10000) 500) = Inr 1"
proof -
  have h: "0 < nd_size (NDArray [2, 2] [1, 2, 3, 4 :: real])" "(0::real) < 1 / 10000"
    "(1::nat) \<le> 500"
    by (simp_all add: nd_size_def)
  from mmmg_empty_list [OF h] h show ?thesis by simp
qed

subsection \<open>The trace of \<open>mmmg\<close>\<close>

lemma iadd_shape: "iadd a b = Inr r \<Longrightarrow> shape r = shape a"
  by (auto simp: iadd_def err_bind_eq_Inr split: if_splits)

lemma mmmg_move_keeps:
  assumes "mmmg_move pinv cl shp grad st = Inr st'"
  shows "mg_norm_grad st' = mg_norm_grad st \<and> mg_iterations st' = mg_iterations st
         \<and> shape (mg_point st') = shape (mg_point st)"
  using assms unfolding mmmg_move_def err_bind_eq_Inr
  by (auto dest: iadd_shape)

lemma mmmg_loop_trace:
  assumes "mmmg_loop pinv cl shp tol n st = Inr st'"
  shows "\<exists>new. mg_norm_grad st' = mg_norm_grad st @ new
           \<and> mg_iterations st' = mg_iterations st + length new
           \<and> length new \<le> n
           \<and> shape (mg_point st') = shape (mg_point st)
           \<and> (\<forall>v \<in> set (butlast new). \<not> v < real (nd_size (mg_point st)) * tol)
           \<and> ((new \<noteq> [] \<and> last new < real (nd_size (mg_point st)) * tol
                \<and> (\<exists>grad. gradient cl (mg_point st') shp = Inr grad \<and> last new = la_norm grad))
              \<or> (length new = n \<and> (\<forall>v \<in> set new. \<not> v < real (nd_size (mg_point st)) * tol)))"
  using assms
proof (induction n arbitrary: st)
  case 0
  then show ?case by simp
next
  case (Suc n)
  from Suc.prems obtain grad where g: "gradient cl (mg_point st) shp = Inr grad"
    and rest: "(let st1 = st\<lparr>mg_norm_grad := mg_norm_grad st @ [la_norm grad],
                       mg_iterations := Suc (mg_iterations st)\<rparr>
               in if last (mg_norm_grad st1) < real (nd_size (mg_point st1)) * tol
                  then Inr st1
                  else err_bind (mmmg_move pinv cl shp grad st1) (mmmg_loop pinv cl shp tol n)) = Inr st'"
    by (auto simp: err_bind_eq_Inr)
  let ?st1 = "st\<lparr>mg_norm_grad := mg_norm_grad st @ [la_norm grad],
                  mg_iterations := Suc (mg_iterations st)\<rparr>"
  let ?thr = "real (nd_size (mg_point st)) * tol"
  show ?case
  proof (cases "la_norm grad < ?thr")
    case True
    with rest have "st' = ?st1" by (simp add: Let_def)
    with True g show ?thesis
      by (intro exI [of _ "[la_norm grad]"]) simp
  next
    case False
    with rest obtain st2 where mv: "mmmg_move pinv cl shp grad ?st1 = Inr st2"
      and lp: "mmmg_loop pinv cl shp tol n st2 = Inr st'"
      by (auto simp: Let_def err_bind_eq_Inr)
    from mmmg_move_keeps [OF mv]
    have k: "mg_norm_grad st2 = mg_norm_grad st @ [la_norm grad]"
      "mg_iterations st2 = Suc (mg_iterations st)"
      "shape (mg_point st2) = shape (mg_point st)"
      by simp_all
    then have sz: "nd_size (mg_point st2) = nd_size (mg_point st)"
      by (simp add: nd_size_def)
    from Suc.IH [OF lp] obtain new where new:
      "mg_norm_grad st' = mg_norm_grad st2 @ new"
      "mg_iterations st' = mg_iterations st2 + length new"
      "length new \<le> n"
      "shape (mg_point st') = shape (mg_point st2)"
      "\<forall>v \<in> set (butlast new). \<not> v < ?thr"
      "(new \<noteq> [] \<and> last new < ?thr
          \<and> (\<exists>grad. gradient cl (mg_point st') shp = Inr grad \<and> last new = la_norm grad))
       \<or> (length new = n \<and> (\<forall>v \<in> set new. \<not> v < ?thr))"
      unfolding sz by blast
    show ?thesis
    proof (intro exI [of _ "la_norm grad # new"] conjI)
      show "mg_norm_grad st' = mg_norm_grad st @ la_norm grad # new"
        using new(1) k(1) by simp
      show "mg_iterations st' = mg_iterations st + length (la_norm grad # new)"
        using new(2) k(2) by simp
      show "length (la_norm grad # new) \<le> Suc n" using new(3) by simp
      show "shape (mg_point st') = shape (mg_point st)" using new(4) k(3) by simp
      show "\<forall>v \<in> set (butlast (la_norm grad # new)). \<not> v < ?thr"
        using new(5) False by auto
      show "(la_norm grad # new \<noteq> [] \<and> last (la_norm grad # new) < ?thr
              \<and> (\<exists>g. gradient cl (mg_point st') shp = Inr g \<and> last (la_norm grad # new) = la_norm g))
            \<or> (length (la_norm grad # new) = Suc n \<and> (\<forall>v \<in> set (la_norm grad # new). \<not> v < ?thr))"
        using new(6) False by auto
    qed
  qed
qed

text \<open>
  C6. When \<open>mmmg\<close> returns, its trace holds one gradient norm for each pass of the
  loop that was entered, at most \<open>max_iter\<close> of them (so at most \<open>max_iter + 1\<close>);
  no entry before the last is below \<open>init.size * tol\<close>; either the last entry is
  below it, and is the norm of the gradient at the returned point, or \<open>max_iter\<close>
  passes were made and no entry is below it; the first component is the final iterate in
  the shape of \<open>init\<close>.
\<close>

theorem mmmg_trace:
  assumes "mmmg pinv crit_list init tol max_iter = Inr (minimiser, norm_grad)"
  shows "\<exists>st. mmmg_run pinv crit_list init tol max_iter = Inr st
           \<and> norm_grad = mg_norm_grad st
           \<and> length norm_grad = mg_iterations st
           \<and> length norm_grad \<le> max_iter \<and> length norm_grad \<le> max_iter + 1
           \<and> (\<forall>v \<in> set (butlast norm_grad). \<not> v < real (nd_size init) * tol)
           \<and> ((norm_grad \<noteq> [] \<and> last norm_grad < real (nd_size init) * tol
                 \<and> (\<exists>grad. gradient crit_list (mg_point st) (shape init) = Inr grad
                       \<and> last norm_grad = la_norm grad))
               \<or> (length norm_grad = max_iter
                   \<and> (\<forall>v \<in> set norm_grad. \<not> v < real (nd_size init) * tol)))
           \<and> minimiser = NDArray (shape init) (data (mg_point st))
           \<and> shape minimiser = shape init"
proof -
  from assms obtain st where run: "mmmg_run pinv crit_list init tol max_iter = Inr st"
    and res: "reshape (shape init) (mg_point st) = Inr minimiser" "norm_grad = mg_norm_grad st"
    by (auto simp: mmmg_def err_bind_eq_Inr)
  from run obtain ods where
    lp: "mmmg_loop pinv crit_list (shape init) tol max_iter
           \<lparr>mg_point = reshape_col init, mg_norm_grad = [],
            mg_move = zeros_like (reshape_col init), mg_op_directions = ods,
            mg_step = NDArray [2, 1] [1, 1], mg_iterations = 0\<rparr> = Inr st"
    by (auto simp: mmmg_run_def Let_def err_bind_eq_Inr)
  have sz: "nd_size (reshape_col init) = nd_size init"
    by (simp add: reshape_col_def nd_size_def)
  from mmmg_loop_trace [OF lp] sz obtain new where new:
    "mg_norm_grad st = new" "mg_iterations st = length new" "length new \<le> max_iter"
    "\<forall>v \<in> set (butlast new). \<not> v < real (nd_size init) * tol"
    "(new \<noteq> [] \<and> last new < real (nd_size init) * tol
       \<and> (\<exists>grad. gradient crit_list (mg_point st) (shape init) = Inr grad
             \<and> last new = la_norm grad))
     \<or> (length new = max_iter \<and> (\<forall>v \<in> set new. \<not> v < real (nd_size init) * tol))"
    by auto
  from res(1) have m: "minimiser = NDArray (shape init) (data (mg_point st))"
    by (auto simp: reshape_def split: if_splits)
  from run res(2) new m show ?thesis by auto
qed


lemma example_run:
  "mmmg Inr [example_crit] (NDArray [1] [0]) (1 / 10) 5 = Inr (NDArray [1] [1], [1, 0])"
  by (simp add: mmmg_def mmmg_run_def example_crit_def Let_def eval_nat_numeral
     vect_def reshape_def reshape_col_def nd_size_def zeros_like_def nd_map_def tile2_def
     gradient_def py_sum_def nd_sub_def nd_add_def nd_binop_def broadcast_shapes_def
     broadcast_to_def scalar_def la_norm_def mmmg_move_def np_c_def matrix_shape_def
     nd_neg_def nd_T_def matmul_def columns_def iadd_def)

theorem mmmg_trace_witness:
  "mmmg Inr [example_crit] (NDArray [1] [0]) (1 / 10) 5 = Inr (NDArray [1] [1], [1, 0])
   \<and> (\<exists>st. mmmg_run Inr [example_crit] (NDArray [1] [0]) (1 / 10) 5 = Inr st
          \<and> mg_norm_grad st = [1, 0] \<and> mg_iterations st = 2)"
  using mmmg_trace [OF example_run] example_run by auto

section \<open>The solver \<open>mmcg\<close>\<close>

lemma truth_value_Inr: "truth_value (nd_map P a) = Inr c \<Longrightarrow> \<exists>b. data a = [b] \<and> c = P b"
  by (auto simp: truth_value_def nd_map_def split: list.splits)

lemma mmcg_direction_result:
  assumes "mmcg_direction precond st = Inr st'"
  shows "\<exists>rt delta_mid beta b.
           nd_T (cg_residual st) = Inr rt
         \<and> matmul rt (cg_sec st) = Inr delta_mid
         \<and> precond (cg_residual st) = Inr (cg_sec st')
         \<and> matmul rt (cg_sec st') = Inr (cg_delta st')
         \<and> err_bind (nd_sub (cg_delta st') delta_mid) (\<lambda>num. nd_div num (cg_delta st)) = Inr beta
         \<and> data beta = [b]
         \<and> (0 \<le> b \<longrightarrow> err_bind (nd_mul beta (cg_direction st)) (nd_add (cg_sec st'))
                          = Inr (cg_direction st'))
         \<and> (b < 0 \<longrightarrow> cg_direction st' = cg_sec st')
         \<and> cg_residual st' = cg_residual st \<and> cg_point st' = cg_point st
         \<and> cg_norm_res st' = cg_norm_res st \<and> cg_iterations st' = cg_iterations st"
proof -
  from assms obtain rt delta_mid sec delta num beta nonneg where
    s: "nd_T (cg_residual st) = Inr rt" "matmul rt (cg_sec st) = Inr delta_mid"
       "precond (cg_residual st) = Inr sec" "matmul rt sec = Inr delta"
       "nd_sub delta delta_mid = Inr num" "nd_div num (cg_delta st) = Inr beta"
       "truth_value (nd_map (\<lambda>v. 0 \<le> v) beta) = Inr nonneg"
    and r: "(if nonneg
             then err_bind (nd_mul beta (cg_direction st)) (\<lambda>bd.
                  err_bind (nd_add sec bd) (\<lambda>direction.
                  Inr (st\<lparr>cg_sec := sec, cg_delta := delta, cg_direction := direction\<rparr>)))
             else Inr (st\<lparr>cg_sec := sec, cg_delta := delta, cg_direction := sec\<rparr>)) = Inr st'"
    unfolding mmcg_direction_def Let_def err_bind_eq_Inr by blast
  from truth_value_Inr [OF s(7)] obtain b where b: "data beta = [b]" "nonneg = (0 \<le> b)"
    by blast
  show ?thesis
  proof (cases "0 \<le> b")
    case True
    with r b obtain bd direction where
      d: "nd_mul beta (cg_direction st) = Inr bd" "nd_add sec bd = Inr direction"
         "st' = st\<lparr>cg_sec := sec, cg_delta := delta, cg_direction := direction\<rparr>"
      by (auto simp: err_bind_eq_Inr)
    with s b True show ?thesis by (auto simp: err_bind_eq_Inr)
  next
    case False
    with r b have "st' = st\<lparr>cg_sec := sec, cg_delta := delta, cg_direction := sec\<rparr>"
      by simp
    with s b False show ?thesis by (auto simp: err_bind_eq_Inr)
  qed
qed

lemma mmcg_direction_iterations:
  "mmcg_direction precond (st\<lparr>cg_iterations := k\<rparr>)
   = map_sum id (\<lambda>s. s\<lparr>cg_iterations := k\<rparr>) (mmcg_direction precond st)"
  by (simp add: mmcg_direction_def Let_def err_bind_def split: sum.splits)

lemma mmcg_pass_iterations:
  "mmcg_pass precond crit_list shp tol (st\<lparr>cg_iterations := k\<rparr>)
   = map_sum id (\<lambda>(stop, s). (stop, s\<lparr>cg_iterations := Suc k\<rparr>))
       (mmcg_pass precond crit_list shp tol st)"
  by (simp add: mmcg_pass_def mmcg_direction_def Let_def err_bind_def split: sum.splits)

text \<open>
  C7. In a pass of \<open>mmcg\<close> that does not stop, with
  \<open>beta = (delta - delta_mid) / delta_old\<close> computed from the new \<open>delta\<close>, the
  product \<open>delta_mid\<close> of the new residual with the old \<open>sec\<close> and the previous
  \<open>delta\<close>: if \<open>beta \<ge> 0\<close> the next direction is \<open>sec + beta * direction\<close>, and
  if \<open>beta < 0\<close> it is \<open>sec\<close>. The pass does not depend on the count of passes:
  there is no periodic restart.
\<close>

theorem mmcg_pass_direction:
  assumes "mmcg_pass precond crit_list shp tol st = Inr (False, st')"
  shows "\<exists>rt delta_mid beta b.
           nd_T (cg_residual st') = Inr rt
         \<and> matmul rt (cg_sec st) = Inr delta_mid
         \<and> precond (cg_residual st') = Inr (cg_sec st')
         \<and> matmul rt (cg_sec st') = Inr (cg_delta st')
         \<and> err_bind (nd_sub (cg_delta st') delta_mid) (\<lambda>num. nd_div num (cg_delta st)) = Inr beta
         \<and> data beta = [b]
         \<and> (0 \<le> b \<longrightarrow> err_bind (nd_mul beta (cg_direction st)) (nd_add (cg_sec st'))
                          = Inr (cg_direction st'))
         \<and> (b < 0 \<longrightarrow> cg_direction st' = cg_sec st')
         \<and> (\<forall>k. mmcg_pass precond crit_list shp tol (st\<lparr>cg_iterations := k\<rparr>)
                  = Inr (False, st'\<lparr>cg_iterations := Suc k\<rparr>))"
proof -
  from assms obtain point g where
    d: "mmcg_direction precond
          (st\<lparr>cg_point := point, cg_residual := nd_neg g,
              cg_norm_res := cg_norm_res st @ [la_norm (nd_neg g)],
              cg_iterations := Suc (cg_iterations st)\<rparr>) = Inr st'"
    unfolding mmcg_pass_def Let_def
    by (auto simp: err_bind_eq_Inr split: if_splits)
  from mmcg_direction_result [OF d] obtain rt delta_mid beta b where
    "nd_T (cg_residual st') = Inr rt" "matmul rt (cg_sec st) = Inr delta_mid"
    "precond (cg_residual st') = Inr (cg_sec st')" "matmul rt (cg_sec st') = Inr (cg_delta st')"
    "err_bind (nd_sub (cg_delta st') delta_mid) (\<lambda>num. nd_div num (cg_delta st)) = Inr beta"
    "data beta = [b]"
    "0 \<le> b \<longrightarrow> err_bind (nd_mul beta (cg_direction st)) (nd_add (cg_sec st'))
                          = Inr (cg_direction st')"
    "b < 0 \<longrightarrow> cg_direction st' = cg_sec st'"
    by auto
  moreover have "\<forall>k. mmcg_pass precond crit_list shp tol (st\<lparr>cg_iterations := k\<rparr>)
                  = Inr (False, st'\<lparr>cg_iterations := Suc k\<rparr>)"
    by (simp add: mmcg_pass_iterations assms)
  ultimately show ?thesis by blast
qed

lemmas np_defs = vect_def reshape_def reshape_col_def nd_size_def zeros_like_def nd_map_def tile2_def
     gradient_def py_sum_def nd_sub_def nd_add_def nd_mul_def nd_div_def nd_binop_def broadcast_shapes_def
     broadcast_to_def scalar_def la_norm_def np_c_def matrix_shape_def
     nd_neg_def nd_T_def matmul_def columns_def iadd_def idiv_def truth_value_def fdiv_def

lemma sqrt_180_73: "sqrt (32400 / 5329) = 180 / 73"
  by (rule real_sqrt_unique) (simp_all add: power2_eq_square)

lemma example_pass:
  "mmcg_pass Inr [example_crit2] [2] (1 / 10000)
     \<lparr>cg_point = NDArray [2, 1] [0, 0], cg_residual = NDArray [2, 1] [3, 4],
      cg_sec = NDArray [2, 1] [3, 4], cg_direction = NDArray [2, 1] [3, 4],
      cg_delta = NDArray [1, 1] [25], cg_norm_res = [5], cg_iterations = 0\<rparr>
   = Inr (False,
       \<lparr>cg_point = NDArray [2, 1] [75 / 73, 100 / 73],
        cg_residual = NDArray [2, 1] [144 / 73, - 108 / 73],
        cg_sec = NDArray [2, 1] [144 / 73, - 108 / 73],
        cg_direction = NDArray [2, 1] [14400 / 5329, - 2700 / 5329],
        cg_delta = NDArray [1, 1] [32400 / 5329], cg_norm_res = [5, 180 / 73],
        cg_iterations = 1\<rparr>)"
  by (simp add: mmcg_pass_def mmcg_direction_def example_crit2_def Let_def eval_nat_numeral
        np_defs power2_eq_square sqrt_180_73)

lemma example_start:
  "mmcg_run None [example_crit2] (NDArray [2] [0, 0]) (1 / 10000) 0
   = Inr \<lparr>cg_point = NDArray [2, 1] [0, 0], cg_residual = NDArray [2, 1] [3, 4],
          cg_sec = NDArray [2, 1] [3, 4], cg_direction = NDArray [2, 1] [3, 4],
          cg_delta = NDArray [1, 1] [25], cg_norm_res = [5], cg_iterations = 0\<rparr>"
  by (simp add: mmcg_run_def example_crit2_def Let_def eval_nat_numeral np_defs power2_eq_square)

theorem mmcg_pass_direction_witness:
  "mmcg_pass Inr [example_crit2] [2] (1 / 10000)
     \<lparr>cg_point = NDArray [2, 1] [0, 0], cg_residual = NDArray [2, 1] [3, 4],
      cg_sec = NDArray [2, 1] [3, 4], cg_direction = NDArray [2, 1] [3, 4],
      cg_delta = NDArray [1, 1] [25], cg_norm_res = [5], cg_iterations = 0\<rparr>
   = Inr (False,
       \<lparr>cg_point = NDArray [2, 1] [75 / 73, 100 / 73],
        cg_residual = NDArray [2, 1] [144 / 73, - 108 / 73],
        cg_sec = NDArray [2, 1] [144 / 73, - 108 / 73],
        cg_direction = NDArray [2, 1] [14400 / 5329, - 2700 / 5329],
        cg_delta = NDArray [1, 1] [32400 / 5329], cg_norm_res = [5, 180 / 73],
        cg_iterations = 1\<rparr>)
   \<and> (\<exists>beta b. err_bind (nd_sub (NDArray [1, 1] [32400 / 5329]) (NDArray [1, 1] [0]))
                   (\<lambda>num. nd_div num (NDArray [1, 1] [25])) = Inr beta
          \<and> data beta = [b] \<and> b = 1296 / 5329
          \<and> err_bind (nd_mul beta (NDArray [2, 1] [3, 4]))
               (nd_add (NDArray [2, 1] [144 / 73, - 108 / 73]))
             = Inr (NDArray [2, 1] [14400 / 5329, - 2700 / 5329]))"
proof -
  from mmcg_pass_direction [OF example_pass] obtain rt delta_mid beta b where
    w: "nd_T (NDArray [2, 1] [144 / 73, - 108 / 73 :: real]) = Inr rt"
       "matmul rt (NDArray [2, 1] [3, 4]) = Inr delta_mid"
       "err_bind (nd_sub (NDArray [1, 1] [32400 / 5329]) delta_mid)
          (\<lambda>num. nd_div num (NDArray [1, 1] [25])) = Inr beta"
       "data beta = [b]"
       "0 \<le> b \<longrightarrow> err_bind (nd_mul beta (NDArray [2, 1] [3, 4]))
               (nd_add (NDArray [2, 1] [144 / 73, - 108 / 73]))
             = Inr (NDArray [2, 1] [14400 / 5329, - 2700 / 5329])"
    by auto
  from w(1) have rt: "rt = NDArray [1, 2] [144 / 73, - 108 / 73]"
    by (simp add: np_defs eval_nat_numeral)
  from w(2) have dm: "delta_mid = NDArray [1, 1] [0]"
    unfolding rt by (simp add: np_defs eval_nat_numeral)
  from w(3) have "beta = NDArray [1, 1] [1296 / 5329]"
    unfolding dm by (simp add: np_defs eval_nat_numeral)
  with w(4) have b: "b = 1296 / 5329"
    by simp
  from w dm b example_pass show ?thesis by auto
qed

section \<open>Shapes in a criterion\<close>

lemmas crit_defs = Criterion_init_def Criterion_value_def Criterion_gradient_def
  Criterion_operator_def Criterion_adjoint_def Criterion_gr_coeffs_def
  QuadCriterion_init_def QuadCriterion_gradient_def Square_init_def
  id_operator_def id_adjoint_def shift_adjoint_def shift_normal_def
  Potential_value_def Potential_gradient_def gradient1_def Square_value_def Square_gradient_def
  nd_map_err_def


text \<open>
  C4, as stated, fails: with the identity as operator, a point of shape \<open>(3, 1)\<close> and
  a mean of shape \<open>(1, 3)\<close> the constructor succeeds, \<open>value\<close> returns 1761 and
  \<open>gradient\<close> an array of shape \<open>(3, 3)\<close>; with the default scalar mean 0 and a
  point of shape \<open>(3)\<close>, \<open>value\<close> returns 7.
\<close>

theorem Criterion_broadcasts_mismatched_shapes:
  "shape (NDArray [3, 1] [1, 2, 3 :: real]) \<noteq> shape (NDArray [1, 3] [10, 20, 30 :: real])
   \<and> id_operator (NDArray [3, 1] [1, 2, 3]) = Inr (Arr (NDArray [3, 1] [1, 2, 3]))
   \<and> err_bind (err_bind Square_init (\<lambda>p.
          Criterion_init id_operator id_adjoint p 1 (Arr (NDArray [1, 3] [10, 20, 30]))))
        (\<lambda>c. Criterion_value c (NDArray [3, 1] [1, 2, 3])) = Inr 1761
   \<and> err_bind (err_bind Square_init (\<lambda>p.
          Criterion_init id_operator id_adjoint p 1 (Arr (NDArray [1, 3] [10, 20, 30]))))
        (\<lambda>c. Criterion_gradient c (NDArray [3, 1] [1, 2, 3]))
      = Inr (NDArray [3, 3] [- 9, - 19, - 29, - 8, - 18, - 28, - 7, - 17, - 27])
   \<and> err_bind (err_bind Square_init (\<lambda>p.
          Criterion_init id_operator id_adjoint p 1 (Arr (scalar 0))))
        (\<lambda>c. Criterion_value c (NDArray [3] [1, 2, 3])) = Inr 7"
  by (simp add: crit_defs np_defs eval_nat_numeral)


lemma sequence_err_Inl: "sequence_err ms = Inl e \<Longrightarrow> Inl e \<in> set ms"
proof (induction ms)
  case Nil then show ?case by simp
next
  case (Cons m ms)
  then show ?case
    by (cases m; cases "sequence_err ms") auto
qed

lemma nd_map_err_Inl: "nd_map_err f a = Inl e \<Longrightarrow> \<exists>x. f x = Inl e"
proof -
  assume "nd_map_err f a = Inl e"
  then have "sequence_err (map f (data a)) = Inl e"
    by (cases "sequence_err (map f (data a))") (simp_all add: nd_map_err_def)
  from sequence_err_Inl [OF this] show ?thesis by auto
qed

lemma Potential_value_no_shape_error: "Potential_value p obj \<noteq> Inl ShapeError"
proof
  assume a: "Potential_value p obj = Inl ShapeError"
  show False
  proof (cases "cls p")
    case (VminProj v) with a show ?thesis by (simp add: Potential_value_def VminProj_value_def)
  next
    case (VmaxProj v) with a show ?thesis by (simp add: Potential_value_def VmaxProj_value_def)
  next
    case Square with a show ?thesis
      by (auto simp: Potential_value_def Square_value_def dest: nd_map_err_Inl)
  next
    case (Hyperbolic d) with a show ?thesis
      by (auto simp: Potential_value_def Hyperbolic_value_def fdiv_def err_bind_def
            dest!: nd_map_err_Inl split: if_splits)
  next
    case (Huber d) with a show ?thesis
      by (auto simp: Potential_value_def Huber_value_def dest: nd_map_err_Inl)
  next
    case (GemanMcClure d) with a show ?thesis
      by (auto simp: Potential_value_def GemanMcClure_value_def fdiv_def
            dest!: nd_map_err_Inl split: if_splits)
  next
    case (SquareTruncApprox d) with a show ?thesis
      by (auto simp: Potential_value_def SquareTruncApprox_value_def fdiv_def err_bind_def
            dest!: nd_map_err_Inl split: if_splits)
  next
    case (HerbertLeahy d) with a show ?thesis
      by (auto simp: Potential_value_def HerbertLeahy_value_def fdiv_def err_bind_def
            dest!: nd_map_err_Inl split: if_splits)
  qed
qed

lemma nd_sub_shape:
  "nd_sub a b = (case broadcast_shapes (shape a) (shape b) of
                   None \<Rightarrow> Inl ShapeError
                 | Some s \<Rightarrow> Inr (NDArray s (map2 (-) (broadcast_to s a) (broadcast_to s b))))"
  by (simp add: nd_sub_def nd_binop_def)

text \<open>
  C4, as the code has it. The constructor of \<open>Criterion\<close> checks no shape: for a mean
  that is one array it always succeeds. When \<open>operator(x)\<close> is an array,
  \<open>value(x)\<close> raises a shape error exactly when the shapes of \<open>operator(x)\<close> and of
  the mean cannot be broadcast together, and then \<open>gradient(x)\<close> raises it too; when
  they can, equal or not, the difference is taken by broadcasting and the potential is
  applied to an array of the broadcast shape.
\<close>

theorem Criterion_shape_error:
  assumes "Criterion_init operator_arg adjoint_arg p hyper_arg (Arr m) = Inr c"
    and "operator_arg x = Inr (Arr out)"
  shows "((Criterion_value c x = Inl ShapeError) = (broadcast_shapes (shape out) (shape m) = None))
       \<and> (broadcast_shapes (shape out) (shape m) = None \<longrightarrow>
            Criterion_gradient c x = Inl ShapeError)
       \<and> (\<forall>s. broadcast_shapes (shape out) (shape m) = Some s \<longrightarrow>
            (\<exists>obj. nd_sub out m = Inr obj \<and> shape obj = s
               \<and> Criterion_value c x
                   = err_bind (Potential_value p obj) (\<lambda>v. Inr (hyper_arg * sum_list (data v)))))"
proof -
  from assms(1) have c: "c = \<lparr>operator = operator_arg, adjoint = adjoint_arg, mean = Arr m,
               stacked = False, shapes = [], idx = [], mean_vec = m,
               hyper = hyper_arg, potential = p\<rparr>"
    by (simp add: Criterion_init_def)
  have op: "Criterion_operator c x = Inr out"
    by (simp add: Criterion_operator_def c assms(2))
  have v: "Criterion_value c x
           = err_bind (nd_sub out m) (\<lambda>obj.
             err_bind (Potential_value p obj) (\<lambda>v. Inr (hyper_arg * sum_list (data v))))"
    by (simp add: Criterion_value_def op) (simp add: c)
  have g: "Criterion_gradient c x
           = err_bind (nd_sub out m) (\<lambda>obj.
             err_bind (Potential_gradient p obj) (\<lambda>g.
             err_bind (Criterion_adjoint c g) (\<lambda>a. Inr (nd_map ((*) hyper_arg) a))))"
    by (simp add: Criterion_gradient_def op) (simp add: c)
  show ?thesis
  proof (cases "broadcast_shapes (shape out) (shape m)")
    case None
    then show ?thesis by (simp add: v g nd_sub_shape)
  next
    case (Some s)
    let ?obj = "NDArray s (map2 (-) (broadcast_to s out) (broadcast_to s m))"
    have s: "nd_sub out m = Inr ?obj" by (simp add: nd_sub_shape Some)
    have "Criterion_value c x \<noteq> Inl ShapeError"
      using Potential_value_no_shape_error [of p ?obj]
      by (cases "Potential_value p ?obj") (simp_all add: v s)
    with Some s show ?thesis by (simp add: v)
  qed
qed

theorem Criterion_shape_error_witness:
  "(\<exists>c. Criterion_init id_operator id_adjoint
           \<lparr>cls = Square, inf_attr = Finite 1, convex = True, coercive = True\<rparr> 1
           (Arr (NDArray [1, 3] [10, 20, 30])) = Inr c
        \<and> id_operator (NDArray [3, 1] [1, 2, 3]) = Inr (Arr (NDArray [3, 1] [1, 2, 3]))
        \<and> broadcast_shapes [3, 1] [1, 3] = Some [3, 3]
        \<and> Criterion_value c (NDArray [3, 1] [1, 2, 3]) \<noteq> Inl ShapeError)
   \<and> (\<exists>c. Criterion_init id_operator id_adjoint
           \<lparr>cls = Square, inf_attr = Finite 1, convex = True, coercive = True\<rparr> 1
           (Arr (NDArray [2] [1, 2])) = Inr c
        \<and> id_operator (NDArray [3] [1, 2, 3]) = Inr (Arr (NDArray [3] [1, 2, 3]))
        \<and> broadcast_shapes [3] [2] = None
        \<and> Criterion_value c (NDArray [3] [1, 2, 3]) = Inl ShapeError
        \<and> Criterion_gradient c (NDArray [3] [1, 2, 3]) = Inl ShapeError)"
proof -
  let ?sq = "\<lparr>cls = Square, inf_attr = Finite 1, convex = True, coercive = True\<rparr>"
  obtain c1 where c1: "Criterion_init id_operator id_adjoint ?sq 1
                         (Arr (NDArray [1, 3] [10, 20, 30])) = Inr c1"
    by (simp add: Criterion_init_def)
  obtain c2 where c2: "Criterion_init id_operator id_adjoint ?sq 1
                         (Arr (NDArray [2] [1, 2])) = Inr c2"
    by (simp add: Criterion_init_def)
  have o1: "id_operator (NDArray [3, 1] [1, 2, 3]) = Inr (Arr (NDArray [3, 1] [1, 2, 3]))"
    and o2: "id_operator (NDArray [3] [1, 2, 3]) = Inr (Arr (NDArray [3] [1, 2, 3]))"
    by (simp_all add: id_operator_def)
  have b1: "broadcast_shapes [3, 1] [1, 3] = Some [3, 3]"
    and b2: "broadcast_shapes [3] [2] = None"
    by (simp_all add: broadcast_shapes_def)
  from Criterion_shape_error [OF c1 o1] b1
  have "Criterion_value c1 (NDArray [3, 1] [1, 2, 3]) \<noteq> Inl ShapeError" by simp
  moreover from Criterion_shape_error [OF c2 o2] b2
  have "Criterion_value c2 (NDArray [3] [1, 2, 3]) = Inl ShapeError"
    "Criterion_gradient c2 (NDArray [3] [1, 2, 3]) = Inl ShapeError" by simp_all
  ultimately show ?thesis using c1 c2 o1 o2 b1 b2 by blast
qed

section \<open>The quadratic criterion against the generic one\<close>

subsection \<open>Coefficients that are all 1\<close>

lemma concat_chunks: "concat (chunks n k d) = take (n * k) d"
proof (induction k arbitrary: d)
  case 0 then show ?case by simp
next
  case (Suc k)
  then show ?case by (simp add: take_add)
qed

lemma map_take_chunks: "map (take n) (chunks n k d) = chunks n k d"
  by (induction k arbitrary: d) simp_all

lemma bcast_row_same: "bcast [k] [k] c = take k c"
  by (simp add: map_bcast_nil concat_chunks)

lemma broadcast_to_same2:
  "length w = r * k \<Longrightarrow> broadcast_to [r, k] (NDArray [r, k] w) = w"
proof -
  assume l: "length w = r * k"
  have "map (bcast [k] [k]) (chunks k r w) = chunks k r w"
    using map_take_chunks [of k r w] by (simp add: bcast_row_same [abs_def])
  then show ?thesis
    using l by (simp add: broadcast_to_def concat_chunks mult.commute)
qed

lemma chunks_one: "length d = r \<Longrightarrow> chunks (Suc 0) r d = map (\<lambda>x. [x]) d"
proof (induction r arbitrary: d)
  case 0 then show ?case by simp
next
  case (Suc r)
  then obtain x xs where "d = x # xs" by (cases d) auto
  with Suc show ?case by simp
qed

lemma bcast_one: "bcast [Suc 0] [k] [x] = replicate k x"
  by (cases "k = Suc 0") (simp_all add: map_bcast_nil)

lemma concat_replicate_ones:
  "set d \<subseteq> {1::real} \<Longrightarrow> concat (map (\<lambda>x. replicate k x) d) = replicate (length d * k) 1"
  by (induction d) (simp_all add: replicate_add)

lemma broadcast_to_ones_col:
  assumes "length d = r" "set d \<subseteq> {1::real}"
  shows "broadcast_to [r, k] (NDArray [r, Suc 0] d) = replicate (r * k) 1"
proof -
  have "broadcast_to [r, k] (NDArray [r, Suc 0] d)
        = concat (map (bcast [Suc 0] [k]) (chunks (Suc 0) r d))"
    by (simp del: bcast.simps add: broadcast_to_def bcast.simps(1) [of r "[Suc 0]" r "[k]"])
  also have "\<dots> = concat (map (bcast [Suc 0] [k]) (map (\<lambda>x. [x]) d))"
    by (simp only: chunks_one [OF assms(1)])
  also have "\<dots> = concat (map (\<lambda>x. replicate k x) d)"
    by (simp del: bcast.simps add: bcast_one comp_def)
  also have "\<dots> = replicate (r * k) 1"
    using concat_replicate_ones [OF assms(2), of k] assms(1) by simp
  finally show ?thesis .
qed

lemma map2_mult_ones: "length w = n \<Longrightarrow> map2 (*) (replicate n (1::real)) w = w"
proof (induction w arbitrary: n)
  case Nil then show ?case by simp
next
  case (Cons a w)
  then obtain n' where "n = Suc n'" by (cases n) auto
  with Cons show ?case by simp
qed

lemma broadcast_shapes_col: "broadcast_shapes [r, Suc 0] [r, k] = Some [r, k]"
  by (simp add: broadcast_shapes_def)

lemma nd_mul_ones_col:
  assumes "length d = r" "set d \<subseteq> {1::real}" "length w = r * k"
  shows "nd_mul (NDArray [r, 1] d) (NDArray [r, k] w) = Inr (NDArray [r, k] w)"
  using assms
  by (simp add: nd_mul_def nd_binop_def broadcast_shapes_col broadcast_to_ones_col
        broadcast_to_same2 map2_mult_ones)

lemma major_matrix_ones:
  assumes "wf_array vecs" "shape vecs = [r, k]" "length (data b) = r" "nd_size b = r"
    "set (data b) \<subseteq> {1}"
  shows "major_matrix b vecs = err_bind (nd_T vecs) (\<lambda>vt. matmul vt vecs)"
proof -
  from assms(1,2) have v: "vecs = NDArray [r, k] (data vecs)" "length (data vecs) = r * k"
    by (cases vecs; simp add: wf_array_def)+
  have "nd_mul (reshape_col b) vecs = Inr vecs"
    using nd_mul_ones_col [OF assms(3,5) v(2)] v(1) assms(4)
    by (simp add: reshape_col_def)
  then show ?thesis by (simp add: major_matrix_def)
qed

lemma Square_gr_coeffs_ones:
  "cls p = Square \<Longrightarrow> inf_attr p = Finite 1 \<Longrightarrow>
   Potential_gr_coeffs p obj = Inr (NDArray (shape obj) (map (\<lambda>_. Finite 1) (data obj)))"
proof -
  assume p: "cls p = Square" "inf_attr p = Finite 1"
  have "Potential_gr_coeffs p obj =
        Inr (NDArray (shape obj)
               (map (\<lambda>u. if u \<noteq> 0 then Finite (u / u) else inf_attr p) (data obj)))"
    by (rule gr_coeffs_eq) (simp add: gradient1_def Square_gradient_def p)
  also have "map (\<lambda>u. if u \<noteq> 0 then Finite (u / u) else inf_attr p) (data obj)
             = map (\<lambda>_. Finite 1) (data obj)"
    by (rule map_cong) (auto simp: p)
  finally show ?thesis .
qed

lemma finite_entries_ones:
  "finite_entries (NDArray s (map (\<lambda>_. Finite 1) d)) = Inr (NDArray s (map (\<lambda>_. 1) d))"
proof -
  have "sequence_err (map (\<lambda>v. case v of Finite r \<Rightarrow> Inr r | PosInf \<Rightarrow> Inl NonFinite)
                        (map (\<lambda>_. Finite 1) d)) = Inr (map (\<lambda>_. 1) d)"
    by (induction d) simp_all
  then show ?thesis by (simp add: finite_entries_def nd_map_err_def)
qed

lemma QuadCriterion_init_Arr:
  assumes "QuadCriterion_init operator_arg adjoint_arg normal_arg hyper_arg (Arr m) = Inr q"
  shows "base q = \<lparr>operator = operator_arg, adjoint = adjoint_arg, mean = Arr m,
                   stacked = False, shapes = [], idx = [], mean_vec = m, hyper = hyper_arg,
                   potential = \<lparr>cls = Square, inf_attr = Finite 1, convex = True,
                                 coercive = True\<rparr>\<rparr>"
    and "normal q = normal_arg" and "adjoint_arg (Arr m) = Inr (mean_t q)"
  using assms
  by (auto simp: QuadCriterion_init_def Square_init_def Criterion_init_def
        Criterion_adjoint_def err_bind_eq_Inr)

lemma QuadCriterion_gradient_eq:
  assumes init: "QuadCriterion_init operator_arg adjoint_arg normal_arg hyper_arg (Arr m) = Inr q"
    and normal: "\<forall>x. normal_arg x = err_bind (operator_arg x) adjoint_arg"
    and arr: "\<forall>x out. operator_arg x = Inr out \<longrightarrow> (\<exists>a. out = Arr a)"
    and additive: "\<forall>x a. operator_arg x = Inr (Arr a) \<longrightarrow>
        err_bind (nd_sub a m) (\<lambda>d. adjoint_arg (Arr d))
        = err_bind (adjoint_arg (Arr a)) (\<lambda>t. err_bind (adjoint_arg (Arr m)) (nd_sub t))"
  shows "QuadCriterion_gradient q x = Criterion_gradient (base q) x"
proof (cases "operator_arg x")
  case (Inl e)
  then show ?thesis
    using normal
    by (simp add: QuadCriterion_gradient_def Criterion_gradient_def Criterion_operator_def
          QuadCriterion_init_Arr [OF init])
next
  case (Inr out)
  with arr obtain a where a: "operator_arg x = Inr (Arr a)" by auto
  have sq: "Potential_gradient \<lparr>cls = Square, inf_attr = Finite 1, convex = True,
              coercive = True\<rparr> obj = Inr obj" for obj
  proof -
    have "sequence_err (map Square_gradient (data obj)) = Inr (map (\<lambda>u. u) (data obj))"
      by (rule sequence_err_map_Inr) (simp add: Square_gradient_def)
    then show ?thesis
      by (simp add: Potential_gradient_def gradient1_def nd_map_err_def)
  qed
  have g: "Criterion_gradient (base q) x
           = err_bind (err_bind (nd_sub a m) (\<lambda>d. adjoint_arg (Arr d)))
               (\<lambda>t. Inr (nd_map ((*) hyper_arg) t))"
    by (cases "nd_sub a m")
       (simp_all add: Criterion_gradient_def Criterion_operator_def Criterion_adjoint_def
          QuadCriterion_init_Arr [OF init] a sq)
  have n: "QuadCriterion_gradient q x
           = err_bind (err_bind (adjoint_arg (Arr a)) (\<lambda>t. err_bind (adjoint_arg (Arr m)) (nd_sub t)))
               (\<lambda>t. Inr (nd_map ((*) hyper_arg) t))"
    using normal
    by (cases "adjoint_arg (Arr a)")
       (simp_all add: QuadCriterion_gradient_def QuadCriterion_init_Arr [OF init] a)
  from additive a have "err_bind (nd_sub a m) (\<lambda>d. adjoint_arg (Arr d))
        = err_bind (adjoint_arg (Arr a)) (\<lambda>t. err_bind (adjoint_arg (Arr m)) (nd_sub t))"
    by blast
  with g n show ?thesis by simp
qed

lemma Criterion_norm_mat_major_Square:
  assumes init: "QuadCriterion_init operator_arg adjoint_arg normal_arg hyper_arg (Arr m) = Inr q"
    and a: "operator_arg x = Inr (Arr a)" and obj: "nd_sub a m = Inr obj"
    and wf: "wf_array obj" "wf_array vecs" and sh: "shape vecs = [nd_size obj, k]"
  shows "Criterion_norm_mat_major (base q) vecs x
         = err_bind (QuadCriterion_norm_mat_major q vecs x) float_if_single"
proof -
  let ?b = "NDArray (shape obj) (map (\<lambda>_. 1::real) (data obj))"
  have gr: "Criterion_gr_coeffs (base q) x
            = Inr (NDArray (shape obj) (map (\<lambda>_. Finite 1) (data obj)))"
    by (simp add: Criterion_gr_coeffs_def Criterion_operator_def QuadCriterion_init_Arr [OF init]
          a obj Square_gr_coeffs_ones)
  have b: "length (data ?b) = nd_size obj" "nd_size ?b = nd_size obj" "set (data ?b) \<subseteq> {1}"
    using wf(1) by (auto simp: wf_array_def nd_size_def)
  have mm: "major_matrix ?b vecs = err_bind (nd_T vecs) (\<lambda>vt. matmul vt vecs)"
    by (rule major_matrix_ones [OF wf(2) sh b])
  obtain vt where vt: "nd_T vecs = Inr vt"
    using sh by (simp add: nd_T_def)
  show ?thesis
    by (simp add: Criterion_norm_mat_major_def QuadCriterion_norm_mat_major_def gr
          finite_entries_ones mm vt)
qed

text \<open>
  C5, as stated, fails: \<open>normal(x) = adjoint(operator(x))\<close> for every \<open>x\<close> does not
  make the two gradients equal when \<open>adjoint\<close> is not additive. With the identity as
  operator, the adjoint that adds 1, mean \<open>[1]\<close> and \<open>hyper = 1\<close>, at \<open>x = [0]\<close>
  \<open>QuadCriterion.gradient\<close> returns \<open>[-1]\<close> and \<open>Criterion.gradient\<close> returns
  \<open>[0]\<close>.
\<close>

theorem QuadCriterion_gradient_nonlinear_adjoint:
  "(\<forall>x. shift_normal x = err_bind (id_operator x) shift_adjoint)
   \<and> err_bind (QuadCriterion_init id_operator shift_adjoint shift_normal 1 (Arr (NDArray [1] [1])))
        (\<lambda>q. QuadCriterion_gradient q (NDArray [1] [0])) = Inr (NDArray [1] [- 1])
   \<and> err_bind (QuadCriterion_init id_operator shift_adjoint shift_normal 1 (Arr (NDArray [1] [1])))
        (\<lambda>q. Criterion_gradient (base q) (NDArray [1] [0])) = Inr (NDArray [1] [0])"
  by (simp add: crit_defs np_defs eval_nat_numeral)

text \<open>
  C5, as the code has it, for a mean that is one array and an operator that returns
  arrays. When \<open>normal(x) = adjoint(operator(x))\<close> for every \<open>x\<close> and \<open>adjoint\<close>
  is additive on the operator's outputs, \<open>adjoint(a - mean) = adjoint(a) - adjoint(mean)\<close>,
  then \<open>QuadCriterion.gradient(x) = hyper * (normal(x) - adjoint(mean))\<close> is the
  gradient of the generic criterion with the Square potential. \<open>norm_mat_major(W, x)\<close>
  is \<open>W\<^sup>T W\<close> for every \<open>x\<close>; it is the generic majorant matrix for coefficients
  that are all 1, and the generic method returns it, as a float when it has one entry.
  \<open>gr_coeffs\<close> returns 1.
\<close>

theorem QuadCriterion_refines_Criterion:
  assumes init: "QuadCriterion_init operator_arg adjoint_arg normal_arg hyper_arg (Arr m) = Inr q"
    and normal: "\<forall>x. normal_arg x = err_bind (operator_arg x) adjoint_arg"
    and arr: "\<forall>x out. operator_arg x = Inr out \<longrightarrow> (\<exists>a. out = Arr a)"
    and additive: "\<forall>x a. operator_arg x = Inr (Arr a) \<longrightarrow>
        err_bind (nd_sub a m) (\<lambda>d. adjoint_arg (Arr d))
        = err_bind (adjoint_arg (Arr a)) (\<lambda>t. err_bind (adjoint_arg (Arr m)) (nd_sub t))"
  shows "QuadCriterion_gradient q x = Criterion_gradient (base q) x
       \<and> QuadCriterion_gradient q x
           = err_bind (normal_arg x) (\<lambda>nx. err_bind (adjoint_arg (Arr m)) (\<lambda>mt.
             err_bind (nd_sub nx mt) (\<lambda>d. Inr (nd_map ((*) hyper_arg) d))))
       \<and> cls (potential (base q)) = Square
       \<and> QuadCriterion_norm_mat_major q vecs x = err_bind (nd_T vecs) (\<lambda>vt. matmul vt vecs)
       \<and> QuadCriterion_norm_mat_major q vecs x = QuadCriterion_norm_mat_major q vecs y
       \<and> (wf_array vecs \<and> shape vecs = [r, k] \<and> length (data b) = r \<and> nd_size b = r
            \<and> set (data b) \<subseteq> {1}
          \<longrightarrow> major_matrix b vecs = QuadCriterion_norm_mat_major q vecs x)
       \<and> (\<forall>a obj. operator_arg x = Inr (Arr a) \<and> nd_sub a m = Inr obj \<and> wf_array obj
              \<and> wf_array vecs \<and> shape vecs = [nd_size obj, k]
          \<longrightarrow> Criterion_norm_mat_major (base q) vecs x
               = err_bind (QuadCriterion_norm_mat_major q vecs x) float_if_single)
       \<and> QuadCriterion_gr_coeffs q x = Inr (scalar 1)"
proof -
  have g: "QuadCriterion_gradient q x = Criterion_gradient (base q) x"
    by (rule QuadCriterion_gradient_eq [OF init normal arr additive])
  have f: "QuadCriterion_gradient q x
           = err_bind (normal_arg x) (\<lambda>nx. err_bind (adjoint_arg (Arr m)) (\<lambda>mt.
             err_bind (nd_sub nx mt) (\<lambda>d. Inr (nd_map ((*) hyper_arg) d))))"
    by (simp add: QuadCriterion_gradient_def QuadCriterion_init_Arr [OF init])
  have p: "cls (potential (base q)) = Square"
    by (simp add: QuadCriterion_init_Arr [OF init])
  have w: "QuadCriterion_norm_mat_major q vecs x = err_bind (nd_T vecs) (\<lambda>vt. matmul vt vecs)"
    "QuadCriterion_norm_mat_major q vecs x = QuadCriterion_norm_mat_major q vecs y"
    by (simp_all add: QuadCriterion_norm_mat_major_def)
  have mj: "wf_array vecs \<and> shape vecs = [r, k] \<and> length (data b) = r \<and> nd_size b = r
            \<and> set (data b) \<subseteq> {1}
          \<longrightarrow> major_matrix b vecs = QuadCriterion_norm_mat_major q vecs x"
    by (auto simp: QuadCriterion_norm_mat_major_def intro!: major_matrix_ones)
  have gen: "\<forall>a obj. operator_arg x = Inr (Arr a) \<and> nd_sub a m = Inr obj \<and> wf_array obj
              \<and> wf_array vecs \<and> shape vecs = [nd_size obj, k]
          \<longrightarrow> Criterion_norm_mat_major (base q) vecs x
               = err_bind (QuadCriterion_norm_mat_major q vecs x) float_if_single"
    using Criterion_norm_mat_major_Square [OF init] by blast
  have c: "QuadCriterion_gr_coeffs q x = Inr (scalar 1)"
    by (simp add: QuadCriterion_gr_coeffs_def)
  from g f p w mj gen c show ?thesis by blast
qed

lemma err_bind_Inr_right: "err_bind m Inr = m"
  by (cases m) simp_all

theorem QuadCriterion_refines_Criterion_witness:
  "\<exists>q. QuadCriterion_init id_operator id_adjoint Inr 2 (Arr (NDArray [2] [1, 2])) = Inr q
      \<and> QuadCriterion_gradient q (NDArray [2] [3, 5]) = Inr (NDArray [2] [4, 6])
      \<and> Criterion_gradient (base q) (NDArray [2] [3, 5]) = Inr (NDArray [2] [4, 6])
      \<and> major_matrix (NDArray [2] [1, 1]) (NDArray [2, 2] [1, 2, 3, 4])
          = Inr (NDArray [2, 2] [10, 14, 14, 20])
      \<and> QuadCriterion_norm_mat_major q (NDArray [2, 2] [1, 2, 3, 4]) (NDArray [2] [3, 5])
          = Inr (NDArray [2, 2] [10, 14, 14, 20])
      \<and> Criterion_norm_mat_major (base q) (NDArray [2, 2] [1, 2, 3, 4]) (NDArray [2] [3, 5])
          = Inr (NDArray [2, 2] [10, 14, 14, 20])"
proof -
  let ?m = "NDArray [2] [1, 2 :: real]" and ?x = "NDArray [2] [3, 5 :: real]"
  let ?w = "NDArray [2, 2] [1, 2, 3, 4 :: real]" and ?b = "NDArray [2] [1, 1 :: real]"
  obtain q where init: "QuadCriterion_init id_operator id_adjoint Inr 2 (Arr ?m) = Inr q"
    by (simp add: QuadCriterion_init_def Square_init_def Criterion_init_def
          Criterion_adjoint_def id_adjoint_def)
  have normal: "\<forall>x. Inr x = err_bind (id_operator x) id_adjoint"
    by (simp add: id_operator_def id_adjoint_def)
  have arr: "\<forall>x out. id_operator x = Inr out \<longrightarrow> (\<exists>a. out = Arr a)"
    by (auto simp: id_operator_def)
  have additive: "\<forall>x a. id_operator x = Inr (Arr a) \<longrightarrow>
        err_bind (nd_sub a ?m) (\<lambda>d. id_adjoint (Arr d))
        = err_bind (id_adjoint (Arr a)) (\<lambda>t. err_bind (id_adjoint (Arr ?m)) (nd_sub t))"
    by (simp add: id_adjoint_def err_bind_Inr_right)
  note t = QuadCriterion_refines_Criterion [OF init normal arr additive,
      of ?x ?w _ 2 2 ?b]
  from t have tg: "QuadCriterion_gradient q ?x = Criterion_gradient (base q) ?x"
    and tf: "QuadCriterion_gradient q ?x
             = err_bind (Inr ?x) (\<lambda>nx. err_bind (id_adjoint (Arr ?m)) (\<lambda>mt.
               err_bind (nd_sub nx mt) (\<lambda>d. Inr (nd_map ((*) 2) d))))"
    and tn: "QuadCriterion_norm_mat_major q ?w ?x = err_bind (nd_T ?w) (\<lambda>vt. matmul vt ?w)"
    and tm: "wf_array ?w \<and> shape ?w = [2, 2] \<and> length (data ?b) = 2 \<and> nd_size ?b = 2
               \<and> set (data ?b) \<subseteq> {1}
             \<longrightarrow> major_matrix ?b ?w = QuadCriterion_norm_mat_major q ?w ?x"
    and tc: "\<forall>a obj. id_operator ?x = Inr (Arr a) \<and> nd_sub a ?m = Inr obj \<and> wf_array obj
               \<and> wf_array ?w \<and> shape ?w = [nd_size obj, 2]
             \<longrightarrow> Criterion_norm_mat_major (base q) ?w ?x
                  = err_bind (QuadCriterion_norm_mat_major q ?w ?x) float_if_single"
    by blast+
  have qg: "QuadCriterion_gradient q ?x = Inr (NDArray [2] [4, 6])"
    unfolding tf by (simp add: id_adjoint_def np_defs eval_nat_numeral)
  have nm: "QuadCriterion_norm_mat_major q ?w ?x = Inr (NDArray [2, 2] [10, 14, 14, 20])"
    unfolding tn by (simp add: np_defs eval_nat_numeral)
  have mj: "major_matrix ?b ?w = Inr (NDArray [2, 2] [10, 14, 14, 20])"
    using tm nm by (simp add: wf_array_def nd_size_def)
  have s: "nd_sub ?x ?m = Inr (NDArray [2] [2, 3])"
    by (simp add: np_defs eval_nat_numeral)
  have io: "id_operator ?x = Inr (Arr ?x)"
    by (simp add: id_operator_def)
  have "Criterion_norm_mat_major (base q) ?w ?x
        = err_bind (QuadCriterion_norm_mat_major q ?w ?x) float_if_single"
    using tc [rule_format, of ?x "NDArray [2] [2, 3]"] s io
    by (simp add: wf_array_def nd_size_def)
  then have cm: "Criterion_norm_mat_major (base q) ?w ?x = Inr (NDArray [2, 2] [10, 14, 14, 20])"
    by (simp add: nm float_if_single_def nd_size_def)
  from tg qg have cg: "Criterion_gradient (base q) ?x = Inr (NDArray [2] [4, 6])"
    by simp
  from init qg cg mj nm cm show ?thesis by auto
qed

end
